theory Spec2Isabelle
  imports Complex_Main
begin

text \<open>
  A model of \<^verbatim>\<open>api_server.py\<close>: the rate limiter, the file cache, the decorator that
  enforces the limit, and the eight rate-limited views. Classes are records, a method takes
  the object and returns it updated, and what a method reads from outside the program (the
  clock, the file system, the database) is an argument. An exception is a value: a function
  that can raise returns \<open>Inl\<close> of the exception or \<open>Inr\<close> of its result, and a
  \<^verbatim>\<open>try\<close> statement is a case distinction on that value.
\<close>

section \<open>The sliding-window rate limiter (class RateLimiter of api_server.py)\<close>

text \<open>
  Timestamps are the values of \<^verbatim>\<open>time.time()\<close>. They are modelled as real numbers, and the
  clock reading of a call is an argument of the call. The dictionary \<^verbatim>\<open>self.requests\<close> is a
  map from the client address to the list of its recorded timestamps.
\<close>

record rate_limiter =
  max_requests :: int
  window_seconds :: int
  requests :: "string \<rightharpoonup> real list"

definition RateLimiter_init :: "int \<Rightarrow> int \<Rightarrow> rate_limiter" where
  "RateLimiter_init max_reqs window_minutes =
     \<lparr>max_requests = max_reqs, window_seconds = window_minutes * 60, requests = Map.empty\<rparr>"

definition is_allowed :: "rate_limiter \<Rightarrow> real \<Rightarrow> string \<Rightarrow> bool \<times> rate_limiter" where
  "is_allowed self current_time client_ip =
     (let cutoff_time = current_time - real_of_int (window_seconds self);
          cleaned = (\<lambda>ip. case requests self ip of
                       None \<Rightarrow> None
                     | Some timestamps \<Rightarrow>
                         if list_ex (\<lambda>ts. ts > cutoff_time) timestamps
                         then Some timestamps else None);
          present = (if cleaned client_ip = None then cleaned(client_ip \<mapsto> []) else cleaned);
          kept = filter (\<lambda>ts. ts > cutoff_time)
                   (case present client_ip of None \<Rightarrow> [] | Some timestamps \<Rightarrow> timestamps);
          pruned = present(client_ip \<mapsto> kept)
      in if max_requests self \<le> int (length kept)
         then (False, self\<lparr>requests := pruned\<rparr>)
         else (True, self\<lparr>requests := pruned(client_ip \<mapsto> kept @ [current_time])\<rparr>))"

text \<open>The timestamps on record for a client (none when the client is not tracked).\<close>

definition client_timestamps :: "rate_limiter \<Rightarrow> string \<Rightarrow> real list" where
  "client_timestamps self client_ip =
     (case requests self client_ip of None \<Rightarrow> [] | Some timestamps \<Rightarrow> timestamps)"

text \<open>The recorded timestamps of a client that are strictly newer than the cutoff of a call.\<close>

definition recent :: "rate_limiter \<Rightarrow> real \<Rightarrow> string \<Rightarrow> real list" where
  "recent self current_time client_ip =
     filter (\<lambda>ts. ts > current_time - real_of_int (window_seconds self))
       (client_timestamps self client_ip)"

text \<open>A sequence of calls by one client, at the given clock readings, in call order.\<close>

fun run_calls :: "rate_limiter \<Rightarrow> string \<Rightarrow> real list \<Rightarrow> bool list \<times> rate_limiter" where
  "run_calls self client_ip [] = ([], self)"
| "run_calls self client_ip (t # ts) =
     (case is_allowed self t client_ip of
        (ok, self') \<Rightarrow>
          (case run_calls self' client_ip ts of (oks, self'') \<Rightarrow> (ok # oks, self'')))"

text \<open>All the calls fall inside one window: any two of them are less than the window apart.\<close>

definition within_window :: "int \<Rightarrow> real list \<Rightarrow> bool" where
  "within_window w ts = (\<forall>t \<in> set ts. \<forall>t' \<in> set ts. t' - t < real_of_int w)"

text \<open>
  A recorded timestamp is safe for the calls at \<open>ts\<close> when it is newer than the cutoff of
  every one of them, so that none of these calls prunes it.
\<close>

definition safe :: "int \<Rightarrow> real list \<Rightarrow> real \<Rightarrow> bool" where
  "safe w ts x = (\<forall>t \<in> set ts. t - real_of_int w < x)"

text \<open>A limiter state with three clients, used in the examples below.\<close>

definition ex_limiter :: rate_limiter where
  "ex_limiter = \<lparr>max_requests = 100, window_seconds = 60,
      requests = [''B'' \<mapsto> [0, 100], ''C'' \<mapsto> [10]]\<rparr>"

section \<open>Strings\<close>

text \<open>\<^verbatim>\<open>str(n)\<close> for an integer, as the f-strings of the source format it.\<close>

definition digit_char :: "nat \<Rightarrow> char" where
  "digit_char d = ''0123456789'' ! d"

function str_nat :: "nat \<Rightarrow> string" where
  "str_nat n = (if n < 10 then [digit_char n] else str_nat (n div 10) @ [digit_char (n mod 10)])"
  by pat_completeness auto
termination
  by (relation "measure (\<lambda>n. n)") auto

declare str_nat.simps [simp del]

definition str_int :: "int \<Rightarrow> string" where
  "str_int i = (if i < 0 then ''-'' @ str_nat (nat (- i)) else str_nat (nat i))"

text \<open>
  \<^verbatim>\<open>str.upper\<close> and \<^verbatim>\<open>str.lower\<close>, on the ASCII letters. Every other character is left
  as it is; Python also converts the letters beyond ASCII, which this model does not follow.
\<close>

definition upper_char :: "char \<Rightarrow> char" where
  "upper_char c =
     (let n = (of_char c :: nat) in if 97 \<le> n \<and> n \<le> 122 then char_of (n - 32) else c)"

definition lower_char :: "char \<Rightarrow> char" where
  "lower_char c =
     (let n = (of_char c :: nat) in if 65 \<le> n \<and> n \<le> 90 then char_of (n + 32) else c)"

definition upper :: "string \<Rightarrow> string" where
  "upper s = map upper_char s"

definition lower :: "string \<Rightarrow> string" where
  "lower s = map lower_char s"


section \<open>Values, exceptions and the log\<close>

text \<open>
  The payloads that the handlers build, cache and return are JSON values. A dictionary is a
  list of key-value pairs in insertion order; its keys are strings, as they are in every
  JSON document. Floating point numbers are modelled as real numbers.
\<close>

datatype json =
    JNull
  | JBool bool
  | JInt int
  | JFloat real
  | JStr string
  | JList "json list"
  | JObj "(string \<times> json) list"

text \<open>The truth value that Python's \<^verbatim>\<open>if\<close> gives to a value.\<close>

fun truthy :: "json \<Rightarrow> bool" where
  "truthy JNull = False"
| "truthy (JBool b) = b"
| "truthy (JInt n) = (n \<noteq> 0)"
| "truthy (JFloat x) = (x \<noteq> 0)"
| "truthy (JStr s) = (s \<noteq> [])"
| "truthy (JList xs) = (xs \<noteq> [])"
| "truthy (JObj kvs) = (kvs \<noteq> [])"

text \<open>\<^verbatim>\<open>if cached_data:\<close> on the optional result of \<^verbatim>\<open>cache.get\<close>; \<^verbatim>\<open>None\<close> is false.\<close>

definition truthy_opt :: "json option \<Rightarrow> bool" where
  "truthy_opt cached_data = (case cached_data of None \<Rightarrow> False | Some v \<Rightarrow> truthy v)"

text \<open>The exception classes that the modelled operations raise.\<close>

datatype py_exc =
    OSError
  | JSONDecodeError
  | UnicodeDecodeError
  | RecursionError
  | ValueError
  | KeyError
  | IndexError
  | TypeError
  | DatabaseError

text \<open>
  The messages written through \<^verbatim>\<open>logger\<close>. An entry keeps the parts of the message that
  the code formats into it: the cache key or client address, and the exception.
\<close>

datatype log_entry =
    CacheReadError string py_exc
  | CacheWriteError string py_exc
  | RateLimitExceeded string
  | HandlerError string py_exc
  | InternalServerError py_exc

section \<open>Python values and \<^verbatim>\<open>json.dump\<close>\<close>

text \<open>
  \<^verbatim>\<open>DataCache.set\<close> is given a Python value. Beyond the values of JSON shape there are
  tuples, dictionaries whose keys are not strings, objects of other classes (\<open>PObject\<close>
  with the text that \<^verbatim>\<open>str\<close> makes of the object) and containers that contain
  themselves (\<open>PCircular\<close>). A dictionary key is a string, an integer, a boolean,
  \<^verbatim>\<open>None\<close>, or a key of another kind (\<open>KOther\<close>: a tuple, a bytes object), which
  \<^verbatim>\<open>json\<close> refuses; float keys, which \<^verbatim>\<open>json\<close> writes by their \<^verbatim>\<open>repr\<close>, are not
  modelled, nor are the floats NaN and infinity.
\<close>

datatype pykey = KStr string | KInt int | KBool bool | KNone | KOther

datatype pyval =
    PNone
  | PBool bool
  | PInt int
  | PFloat real
  | PStr string
  | PList "pyval list"
  | PTuple "pyval list"
  | PDict "(pykey \<times> pyval) list"
  | PObject string
  | PCircular

text \<open>A JSON value as a Python value: the payloads that the handlers build.\<close>

fun py :: "json \<Rightarrow> pyval" where
  "py JNull = PNone"
| "py (JBool b) = PBool b"
| "py (JInt n) = PInt n"
| "py (JFloat x) = PFloat x"
| "py (JStr s) = PStr s"
| "py (JList xs) = PList (map py xs)"
| "py (JObj kvs) = PDict (map (\<lambda>kv. (KStr (fst kv), py (snd kv))) kvs)"

text \<open>The first exception of a list of results, or all the values.\<close>

fun sequence_sum :: "('e + 'a) list \<Rightarrow> 'e + 'a list" where
  "sequence_sum [] = Inr []"
| "sequence_sum (x # xs) =
     (case x of
        Inl ex \<Rightarrow> Inl ex
      | Inr v \<Rightarrow> (case sequence_sum xs of Inl ex \<Rightarrow> Inl ex | Inr vs \<Rightarrow> Inr (v # vs)))"

text \<open>The name that \<^verbatim>\<open>json\<close> writes for a dictionary key.\<close>

definition key_text :: "pykey \<Rightarrow> py_exc + string" where
  "key_text k =
     (case k of
        KStr s \<Rightarrow> Inr s
      | KInt n \<Rightarrow> Inr (str_int n)
      | KBool b \<Rightarrow> Inr (if b then ''true'' else ''false'')
      | KNone \<Rightarrow> Inr ''null''
      | KOther \<Rightarrow> Inl TypeError)"

text \<open>
  \<^verbatim>\<open>json.dump(data, f, default=str)\<close>: the document that the written text parses to, or
  the exception that \<^verbatim>\<open>json.dump\<close> raises. A tuple is written as a list, a key by its
  name, an object of another class as the string \<^verbatim>\<open>str\<close> gives. Names that two keys
  share after the conversion (the keys \<^verbatim>\<open>1\<close> and \<^verbatim>\<open>'1'\<close>) stay two pairs of the
  document here; \<^verbatim>\<open>json.load\<close> would keep the last of them. Values nested deeper than the
  recursion limit of the interpreter are not modelled.
\<close>

fun dump :: "pyval \<Rightarrow> py_exc + json" where
  "dump PNone = Inr JNull"
| "dump (PBool b) = Inr (JBool b)"
| "dump (PInt n) = Inr (JInt n)"
| "dump (PFloat x) = Inr (JFloat x)"
| "dump (PStr s) = Inr (JStr s)"
| "dump (PList xs) =
     (case sequence_sum (map dump xs) of Inl ex \<Rightarrow> Inl ex | Inr vs \<Rightarrow> Inr (JList vs))"
| "dump (PTuple xs) =
     (case sequence_sum (map dump xs) of Inl ex \<Rightarrow> Inl ex | Inr vs \<Rightarrow> Inr (JList vs))"
| "dump (PDict kvs) =
     (case sequence_sum
             (map (\<lambda>kv. case key_text (fst kv) of
                           Inl ex \<Rightarrow> Inl ex
                         | Inr k \<Rightarrow> (case dump (snd kv) of
                                       Inl ex \<Rightarrow> Inl ex
                                     | Inr v \<Rightarrow> Inr (k, v))) kvs) of
        Inl ex \<Rightarrow> Inl ex
      | Inr pairs \<Rightarrow> Inr (JObj pairs))"
| "dump (PObject s) = Inr (JStr s)"
| "dump PCircular = Inl ValueError"

section \<open>Paths\<close>

text \<open>
  \<^verbatim>\<open>self.cache_dir / f"{key}.json"\<close> is a \<^verbatim>\<open>pathlib\<close> join, on a POSIX system: a path is
  its root (no slash, one slash, or exactly two) and its components, which are the pieces
  between slashes except the empty ones and the single dots. A right operand with a root
  replaces the left one.
\<close>

fun split_sep :: "string \<Rightarrow> string list" where
  "split_sep [] = [[]]"
| "split_sep (c # cs) =
     (if c = CHR ''/'' then [] # split_sep cs
      else (case split_sep cs of [] \<Rightarrow> [[c]] | p # ps \<Rightarrow> (c # p) # ps))"

definition path_parts :: "string \<Rightarrow> string list" where
  "path_parts s = filter (\<lambda>p. p \<noteq> [] \<and> p \<noteq> ''.'') (split_sep s)"

definition path_root :: "string \<Rightarrow> string" where
  "path_root s =
     (let n = length (takeWhile (\<lambda>c. c = CHR ''/'') s)
      in if n = 0 then [] else if n = 2 then ''//'' else ''/'')"

fun join_parts :: "string list \<Rightarrow> string" where
  "join_parts [] = []"
| "join_parts [p] = p"
| "join_parts (p # q # ps) = p @ ''/'' @ join_parts (q # ps)"

definition path_join :: "string \<Rightarrow> string \<Rightarrow> string" where
  "path_join a b =
     (let root = (if path_root b \<noteq> [] then path_root b else path_root a);
          parts = (if path_root b \<noteq> [] then path_parts b else path_parts a @ path_parts b)
      in if root = [] \<and> parts = [] then ''.'' else root @ join_parts parts)"

section \<open>The file cache (class DataCache of api_server.py)\<close>

text \<open>
  The cache directory is a map from a path to what the file system has there: nothing, a
  file, or \<open>Unreachable\<close> when \<^verbatim>\<open>stat\<close> on the path fails with an error other than a
  missing file (a name that is too long, a directory without permission). A file has its
  modification time, the clock reading of the call that wrote it, and its content. The
  content is represented by what \<^verbatim>\<open>json.load\<close> makes of the file: the document it parses
  to; \<open>Garbage\<close> for a text that is no JSON document (a corrupt, empty or partially written
  file), on which \<^verbatim>\<open>json.load\<close> raises \<^verbatim>\<open>JSONDecodeError\<close>; \<open>NotUtf8\<close> for bytes that
  are no text, on which it raises \<^verbatim>\<open>UnicodeDecodeError\<close>; \<open>TooDeep\<close> for a document nested
  beyond the recursion limit, on which it raises \<^verbatim>\<open>RecursionError\<close>.
\<close>

datatype file_content = Document json | Garbage | NotUtf8 | TooDeep

record cache_file =
  st_mtime :: real
  content :: file_content

datatype node = File cache_file | Unreachable

text \<open>
  Storage faults are decided by the environment: for one call, which of the file operations
  inside the \<^verbatim>\<open>try\<close> blocks raise \<^verbatim>\<open>OSError\<close>. A failed \<^verbatim>\<open>json.dump\<close> leaves the file
  opened for writing, hence truncated, with an incomplete text.
\<close>

record io_faults =
  stat_fails :: bool
  unlink_fails :: bool
  read_fails :: bool
  open_write_fails :: bool
  dump_fails :: bool

definition no_faults :: io_faults where
  "no_faults = \<lparr>stat_fails = False, unlink_fails = False, read_fails = False,
                 open_write_fails = False, dump_fails = False\<rparr>"

record data_cache =
  cache_dir :: string
  ttl_seconds :: int

definition DataCache_init :: "string \<Rightarrow> int \<Rightarrow> data_cache" where
  "DataCache_init dir ttl_minutes = \<lparr>cache_dir = dir, ttl_seconds = ttl_minutes * 60\<rparr>"

text \<open>The state that the requests share: the limiter, the cache directory and the log.\<close>

record world =
  limiter :: rate_limiter
  files :: "string \<rightharpoonup> node"
  logged :: "log_entry list"

text \<open>\<^verbatim>\<open>self.cache_dir / f"{key}.json"\<close>\<close>

definition cache_path :: "data_cache \<Rightarrow> string \<Rightarrow> string" where
  "cache_path self key = path_join (cache_dir self) (key @ ''.json'')"

text \<open>The body of the \<^verbatim>\<open>try\<close> block of \<^verbatim>\<open>DataCache.get\<close>, for a file that exists.\<close>

definition get_try ::
  "data_cache \<Rightarrow> io_faults \<Rightarrow> real \<Rightarrow> string \<Rightarrow> cache_file \<Rightarrow> (string \<rightharpoonup> node)
     \<Rightarrow> (py_exc + json option) \<times> (string \<rightharpoonup> node)" where
  "get_try self io now path file fs =
     (if stat_fails io then (Inl OSError, fs)
      else if now - st_mtime file > real_of_int (ttl_seconds self) then
        (if unlink_fails io then (Inl OSError, fs) else (Inr None, fs(path := None)))
      else if read_fails io then (Inl OSError, fs)
      else (case content file of
              Document v \<Rightarrow> (Inr (Some v), fs)
            | Garbage \<Rightarrow> (Inl JSONDecodeError, fs)
            | NotUtf8 \<Rightarrow> (Inl UnicodeDecodeError, fs)
            | TooDeep \<Rightarrow> (Inl RecursionError, fs)))"

text \<open>
  \<^verbatim>\<open>cache_file.exists()\<close> stands before the \<^verbatim>\<open>try\<close>: it is false for a missing file
  (a name with a NUL character never has a file), and raises the \<^verbatim>\<open>OSError\<close> of
  \<^verbatim>\<open>stat\<close> on an unreachable path. The \<^verbatim>\<open>except\<close> clause catches
  \<^verbatim>\<open>JSONDecodeError\<close> and \<^verbatim>\<open>OSError\<close>; any other exception leaves the method.
\<close>

definition DataCache_get ::
  "data_cache \<Rightarrow> io_faults \<Rightarrow> real \<Rightarrow> string \<Rightarrow> world \<Rightarrow> (py_exc + json option) \<times> world" where
  "DataCache_get self io now key w =
     (let path = cache_path self key in
      case files w path of
        None \<Rightarrow> (Inr None, w)
      | Some Unreachable \<Rightarrow> (Inl OSError, w)
      | Some (File file) \<Rightarrow>
          (case get_try self io now path file (files w) of
             (Inr r, fs) \<Rightarrow> (Inr r, w\<lparr>files := fs\<rparr>)
           | (Inl e, fs) \<Rightarrow>
               if e = JSONDecodeError \<or> e = OSError
               then (Inr None, w\<lparr>files := fs, logged := logged w @ [CacheReadError key e]\<rparr>)
               else (Inl e, w\<lparr>files := fs\<rparr>)))"

text \<open>
  The body of the \<^verbatim>\<open>try\<close> block of \<^verbatim>\<open>DataCache.set\<close>. \<^verbatim>\<open>open\<close> raises
  \<^verbatim>\<open>ValueError\<close> on a name with a NUL character (the directory of a cache has none:
  \<^verbatim>\<open>mkdir\<close> in the constructor would have raised) and \<^verbatim>\<open>OSError\<close> on an unreachable
  path. An exception of \<^verbatim>\<open>json.dump\<close> comes after the file has been opened, and so
  truncated.
\<close>

definition set_try ::
  "io_faults \<Rightarrow> real \<Rightarrow> string \<Rightarrow> string \<Rightarrow> pyval \<Rightarrow> (string \<rightharpoonup> node)
     \<Rightarrow> (py_exc + unit) \<times> (string \<rightharpoonup> node)" where
  "set_try io now key path data fs =
     (if CHR 0x00 \<in> set key then (Inl ValueError, fs)
      else if open_write_fails io \<or> fs path = Some Unreachable then (Inl OSError, fs)
      else (case dump data of
              Inl ex \<Rightarrow> (Inl ex, fs(path \<mapsto> File \<lparr>st_mtime = now, content = Garbage\<rparr>))
            | Inr doc \<Rightarrow>
                if dump_fails io
                then (Inl OSError, fs(path \<mapsto> File \<lparr>st_mtime = now, content = Garbage\<rparr>))
                else (Inr (), fs(path \<mapsto> File \<lparr>st_mtime = now, content = Document doc\<rparr>))))"

text \<open>The \<^verbatim>\<open>except\<close> clause catches \<^verbatim>\<open>OSError\<close> only.\<close>

definition DataCache_set ::
  "data_cache \<Rightarrow> io_faults \<Rightarrow> real \<Rightarrow> string \<Rightarrow> pyval \<Rightarrow> world \<Rightarrow> (py_exc + unit) \<times> world" where
  "DataCache_set self io now key data w =
     (case set_try io now key (cache_path self key) data (files w) of
        (Inr u, fs) \<Rightarrow> (Inr u, w\<lparr>files := fs\<rparr>)
      | (Inl e, fs) \<Rightarrow>
          if e = OSError
          then (Inr (), w\<lparr>files := fs, logged := logged w @ [CacheWriteError key e]\<rparr>)
          else (Inl e, w\<lparr>files := fs\<rparr>))"

section \<open>Requests, responses and the environment of a request\<close>

text \<open>
  Of a request the handlers read the forwarded-address entry of the WSGI environment, the
  address of the connection and the query parameters.
\<close>

record request =
  forwarded_for :: "string option"
  remote_addr :: string
  args :: "string \<rightharpoonup> string"

datatype body = JsonBody json | RawBody string

record response =
  status_code :: nat
  body :: body
  headers :: "string \<rightharpoonup> string"

text \<open>The entries of \<^verbatim>\<open>app.config\<close> that the modelled code reads.\<close>

record config =
  RATE_LIMIT_REQUESTS :: int
  RATE_LIMIT_WINDOW :: int
  CACHE_TTL :: int

text \<open>
  A row of a query result is the dictionary \<^verbatim>\<open>dict(row)\<close>: column names with their values.
\<close>

type_synonym row = "(string \<times> json) list"

datatype sql_value = SqlText string | SqlInt int

text \<open>
  What a request takes from outside the program: the clock reading (one for the whole
  request), the storage faults, the
  text of \<^verbatim>\<open>datetime.now().isoformat()\<close>, the database (a query with its parameters
  gives the rows or raises), Python's \<^verbatim>\<open>int\<close> on a string (\<open>None\<close> when it raises
  \<^verbatim>\<open>ValueError\<close>), and the pandas renderings of the export.
\<close>

record env =
  now :: real
  io :: io_faults
  isoformat :: string
  execute :: "string \<Rightarrow> sql_value list \<Rightarrow> py_exc + row list"
  int_of_str :: "string \<Rightarrow> int option"
  to_csv :: "row list \<Rightarrow> string"
  to_json :: "row list \<Rightarrow> string"

definition jsonify :: "json \<Rightarrow> response" where
  "jsonify v = \<lparr>status_code = 200, body = JsonBody v,
                headers = [''Content-Type'' \<mapsto> ''application/json'']\<rparr>"

text \<open>\<^verbatim>\<open>return jsonify({'error': msg}), code\<close>\<close>

definition error_response :: "string \<Rightarrow> nat \<Rightarrow> response" where
  "error_response msg code = (jsonify (JObj [(''error'', JStr msg)]))\<lparr>status_code := code\<rparr>"

text \<open>A word in single quotes, as the content security policy writes its keywords.\<close>

definition sq :: "string \<Rightarrow> string" where
  "sq s = [CHR 0x27] @ s @ [CHR 0x27]"

definition add_headers :: "response \<Rightarrow> response" where
  "add_headers r = r\<lparr>headers := (headers r)
     (''X-Content-Type-Options'' \<mapsto> ''nosniff'',
      ''X-Frame-Options'' \<mapsto> ''DENY'',
      ''X-XSS-Protection'' \<mapsto> ''1; mode=block'',
      ''Strict-Transport-Security'' \<mapsto> ''max-age=31536000; includeSubDomains'',
      ''Content-Security-Policy'' \<mapsto>
         ''default-src '' @ sq ''self'' @ ''; '' @
         ''script-src '' @ sq ''self'' @ '' '' @ sq ''unsafe-inline'' @
           '' https://cdnjs.cloudflare.com; '' @
         ''style-src '' @ sq ''self'' @ '' '' @ sq ''unsafe-inline'' @
           '' https://fonts.googleapis.com; '' @
         ''font-src '' @ sq ''self'' @ '' https://fonts.gstatic.com; '' @
         ''img-src '' @ sq ''self'' @ '' data: https:; '' @
         ''connect-src '' @ sq ''self'')\<rparr>"

section \<open>The application (function create_app of api_server.py)\<close>

text \<open>The limiter and the cache that \<^verbatim>\<open>create_app\<close> builds from the configuration.\<close>

definition app_rate_limiter :: "config \<Rightarrow> rate_limiter" where
  "app_rate_limiter cfg = RateLimiter_init (RATE_LIMIT_REQUESTS cfg) (RATE_LIMIT_WINDOW cfg)"

definition app_cache :: "config \<Rightarrow> data_cache" where
  "app_cache cfg = DataCache_init ''cache'' (CACHE_TTL cfg)"

definition client_of :: "request \<Rightarrow> string" where
  "client_of req = (case forwarded_for req of Some ip \<Rightarrow> ip | None \<Rightarrow> remote_addr req)"

definition throttled :: "config \<Rightarrow> response" where
  "throttled cfg =
     add_headers ((jsonify (JObj
        [(''error'', JStr ''Rate limit exceeded''),
         (''message'', JStr (''Maximum '' @ str_int (RATE_LIMIT_REQUESTS cfg) @ '' requests per '' @
                             str_int (RATE_LIMIT_WINDOW cfg) @ '' minutes''))]))
        \<lparr>status_code := 429\<rparr>)"

text \<open>
  The decorator: \<open>f\<close> is the decorated view, a function of the shared state that returns
  a response or raises.
\<close>

definition require_rate_limit ::
  "config \<Rightarrow> env \<Rightarrow> request \<Rightarrow> (world \<Rightarrow> (py_exc + response) \<times> world)
     \<Rightarrow> world \<Rightarrow> (py_exc + response) \<times> world" where
  "require_rate_limit cfg e req f w =
     (let client_ip = client_of req in
      case is_allowed (limiter w) (now e) client_ip of
        (ok, rl) \<Rightarrow>
          if \<not> ok
          then (Inr (throttled cfg),
                w\<lparr>limiter := rl, logged := logged w @ [RateLimitExceeded client_ip]\<rparr>)
          else f (w\<lparr>limiter := rl\<rparr>))"

definition validate_decade :: "string \<Rightarrow> bool" where
  "validate_decade decade =
     (decade \<in> set [''1920s'', ''1930s'', ''1940s'', ''1950s'', ''1960s'', ''1970s'',
                    ''1980s'', ''1990s'', ''2000s'', ''2010s'', ''2020s''])"

definition validate_market :: "string \<Rightarrow> bool" where
  "validate_market market = (market \<in> set [''NYSE'', ''Frankfurt'', ''Tokyo'', ''Hong Kong''])"

text \<open>
  The truth value of an optional query parameter (\<^verbatim>\<open>if decade and ...\<close>): false for a
  missing and for an empty one. \<open>or_all\<close> is \<^verbatim>\<open>decade or 'all'\<close>, and \<open>opt_json\<close> the
  value of the parameter in a payload.
\<close>

definition given :: "string option \<Rightarrow> bool" where
  "given p = (case p of None \<Rightarrow> False | Some s \<Rightarrow> s \<noteq> [])"

definition or_all :: "string option \<Rightarrow> string" where
  "or_all p = (case p of None \<Rightarrow> ''all'' | Some s \<Rightarrow> if s = [] then ''all'' else s)"

definition opt_json :: "string option \<Rightarrow> json" where
  "opt_json p = (case p of None \<Rightarrow> JNull | Some s \<Rightarrow> JStr s)"

text \<open>
  Every cached handler starts with the same lines: look the key up, and return the cached
  payload if it is true as a Python condition; otherwise go on with the \<^verbatim>\<open>try\<close> block,
  here \<open>compute\<close>.
\<close>

definition cached_or ::
  "data_cache \<Rightarrow> env \<Rightarrow> string \<Rightarrow> (world \<Rightarrow> (py_exc + response) \<times> world)
     \<Rightarrow> world \<Rightarrow> (py_exc + response) \<times> world" where
  "cached_or cache e cache_key compute w =
     (case DataCache_get cache (io e) (now e) cache_key w of
        (Inl ex, w') \<Rightarrow> (Inl ex, w')
      | (Inr cached_data, w') \<Rightarrow>
          (case cached_data of
             Some v \<Rightarrow> if truthy v then (Inr (jsonify v), w') else compute w'
           | None \<Rightarrow> compute w'))"

text \<open>\<^verbatim>\<open>except Exception as e: logger.error(...); return jsonify({'error': msg}), 500\<close>\<close>

definition catch_all ::
  "string \<Rightarrow> string \<Rightarrow> (py_exc + response) \<times> world \<Rightarrow> (py_exc + response) \<times> world" where
  "catch_all label msg r =
     (case r of
        (Inl ex, w) \<Rightarrow> (Inr (error_response msg 500), w\<lparr>logged := logged w @ [HandlerError label ex]\<rparr>)
      | (Inr resp, w) \<Rightarrow> (Inr resp, w))"

text \<open>The end of each \<^verbatim>\<open>try\<close> block: \<^verbatim>\<open>cache.set(cache_key, data); return jsonify(data)\<close>\<close>

definition store_and_return ::
  "data_cache \<Rightarrow> env \<Rightarrow> string \<Rightarrow> json \<Rightarrow> world \<Rightarrow> (py_exc + response) \<times> world" where
  "store_and_return cache e cache_key data w =
     (case DataCache_set cache (io e) (now e) cache_key (py data) w of
        (Inl ex, w') \<Rightarrow> (Inl ex, w')
      | (Inr u, w') \<Rightarrow> (Inr (jsonify data), w'))"

section \<open>The handlers\<close>

text \<open>
  Each handler is the body of the view function of the same name; its \<^verbatim>\<open>try\<close> statement,
  with the \<^verbatim>\<open>except Exception\<close> clause, is the function with the suffix \<open>_try\<close>. The
  texts of the queries are written on one line, with single spaces for the line breaks and
  the indentation of the source.
\<close>

text \<open>
  \<^verbatim>\<open>decade and not validate_decade(decade)\<close> for an optional query parameter, and the same
  for the market.
\<close>

definition invalid_decade :: "string option \<Rightarrow> bool" where
  "invalid_decade p = (case p of None \<Rightarrow> False | Some s \<Rightarrow> s \<noteq> [] \<and> \<not> validate_decade s)"

definition invalid_market :: "string option \<Rightarrow> bool" where
  "invalid_market p = (case p of None \<Rightarrow> False | Some s \<Rightarrow> s \<noteq> [] \<and> \<not> validate_market s)"

text \<open>\<^verbatim>\<open>if decade: params.append(decade)\<close>, and the clause added to the query with it.\<close>

definition opt_param :: "string option \<Rightarrow> sql_value list" where
  "opt_param p = (case p of None \<Rightarrow> [] | Some s \<Rightarrow> if s = [] then [] else [SqlText s])"

definition opt_clause :: "string option \<Rightarrow> string \<Rightarrow> string" where
  "opt_clause p clause = (if given p then clause else [])"

text \<open>\<^verbatim>\<open>[row[name] for row in rows]\<close>; a row without the column raises.\<close>

fun columns :: "string \<Rightarrow> row list \<Rightarrow> py_exc + json list" where
  "columns name [] = Inr []"
| "columns name (r # rs) =
     (case map_of r name of
        None \<Rightarrow> Inl IndexError
      | Some v \<Rightarrow> (case columns name rs of Inl ex \<Rightarrow> Inl ex | Inr vs \<Rightarrow> Inr (v # vs)))"

text \<open>\<^verbatim>\<open>d[key] = v\<close> on a dictionary: the key keeps its place, a new key goes last.\<close>

fun dict_set :: "string \<Rightarrow> json \<Rightarrow> (string \<times> json) list \<Rightarrow> (string \<times> json) list" where
  "dict_set key v [] = [(key, v)]"
| "dict_set key v ((k, x) # kvs) =
     (if k = key then (k, v) # kvs else (k, x) # dict_set key v kvs)"

subsection \<open>\<^verbatim>\<open>/api/data/decades\<close> and \<^verbatim>\<open>/api/data/markets\<close>\<close>

definition get_decades_try :: "data_cache \<Rightarrow> env \<Rightarrow> string \<Rightarrow> world \<Rightarrow> (py_exc + response) \<times> world" where
  "get_decades_try cache e cache_key w =
     catch_all ''Error fetching decades'' ''Failed to fetch decades''
       (case execute e ''SELECT DISTINCT decade FROM stock_data ORDER BY decade'' [] of
          Inl ex \<Rightarrow> (Inl ex, w)
        | Inr rows \<Rightarrow>
            (case columns ''decade'' rows of
               Inl ex \<Rightarrow> (Inl ex, w)
             | Inr decades \<Rightarrow>
                 store_and_return cache e cache_key
                   (JObj [(''decades'', JList decades),
                          (''count'', JInt (int (length decades))),
                          (''timestamp'', JStr (isoformat e))]) w))"

definition get_decades :: "data_cache \<Rightarrow> env \<Rightarrow> world \<Rightarrow> (py_exc + response) \<times> world" where
  "get_decades cache e w =
     (let cache_key = ''decades_list''
      in cached_or cache e cache_key (get_decades_try cache e cache_key) w)"

definition get_markets_try :: "data_cache \<Rightarrow> env \<Rightarrow> string \<Rightarrow> world \<Rightarrow> (py_exc + response) \<times> world" where
  "get_markets_try cache e cache_key w =
     catch_all ''Error fetching markets'' ''Failed to fetch markets''
       (case execute e ''SELECT DISTINCT market FROM stock_data ORDER BY market'' [] of
          Inl ex \<Rightarrow> (Inl ex, w)
        | Inr rows \<Rightarrow>
            (case columns ''market'' rows of
               Inl ex \<Rightarrow> (Inl ex, w)
             | Inr markets \<Rightarrow>
                 store_and_return cache e cache_key
                   (JObj [(''markets'', JList markets),
                          (''count'', JInt (int (length markets))),
                          (''timestamp'', JStr (isoformat e))]) w))"

definition get_markets :: "data_cache \<Rightarrow> env \<Rightarrow> world \<Rightarrow> (py_exc + response) \<times> world" where
  "get_markets cache e w =
     (let cache_key = ''markets_list''
      in cached_or cache e cache_key (get_markets_try cache e cache_key) w)"

subsection \<open>\<^verbatim>\<open>/api/data/decade/<decade>\<close>\<close>

text \<open>
  The grouping loop. The dictionary \<^verbatim>\<open>markets\<close> is keyed by the value of the market
  column; a group is the list of its stocks, whose length is the \<^verbatim>\<open>total_stocks\<close> count
  that the loop keeps.
\<close>

fun add_stock :: "(json \<times> row list) list \<Rightarrow> json \<Rightarrow> row \<Rightarrow> (json \<times> row list) list" where
  "add_stock [] market stock = [(market, [stock])]"
| "add_stock ((m, stocks) # groups) market stock =
     (if m = market then (m, stocks @ [stock]) # groups
      else (m, stocks) # add_stock groups market stock)"

fun group_stocks :: "(json \<times> row list) list \<Rightarrow> row list \<Rightarrow> py_exc + (json \<times> row list) list" where
  "group_stocks markets [] = Inr markets"
| "group_stocks markets (stock # stocks) =
     (case map_of stock ''market'' of
        None \<Rightarrow> Inl KeyError
      | Some market \<Rightarrow> group_stocks (add_stock markets market stock) stocks)"

text \<open>
  In the serialised payload the keys of \<^verbatim>\<open>markets\<close> are strings. The market column is a
  text column: its value is a string, or NULL, which \<^verbatim>\<open>json\<close> writes as the key
  \<^verbatim>\<open>null\<close>. Values of another kind are outside this model and are given a \<^verbatim>\<open>TypeError\<close>.
\<close>

definition market_key :: "json \<Rightarrow> py_exc + string" where
  "market_key m = (case m of JStr s \<Rightarrow> Inr s | JNull \<Rightarrow> Inr ''null'' | _ \<Rightarrow> Inl TypeError)"

fun render_markets :: "(json \<times> row list) list \<Rightarrow> py_exc + (string \<times> json) list" where
  "render_markets [] = Inr []"
| "render_markets ((m, stocks) # groups) =
     (case market_key m of
        Inl ex \<Rightarrow> Inl ex
      | Inr k \<Rightarrow>
          (case render_markets groups of
             Inl ex \<Rightarrow> Inl ex
           | Inr rest \<Rightarrow>
               Inr ((k, JObj [(''name'', m),
                              (''stocks'', JList (map JObj stocks)),
                              (''total_stocks'', JInt (int (length stocks)))]) # rest)))"

definition get_decade_data_try ::
  "data_cache \<Rightarrow> env \<Rightarrow> string \<Rightarrow> string \<Rightarrow> world \<Rightarrow> (py_exc + response) \<times> world" where
  "get_decade_data_try cache e decade cache_key w =
     catch_all ''Error fetching decade data'' ''Failed to fetch decade data''
       (case execute e ''SELECT * FROM stock_data WHERE decade = ? ORDER BY market, symbol''
               [SqlText decade] of
          Inl ex \<Rightarrow> (Inl ex, w)
        | Inr stocks \<Rightarrow>
            if stocks = [] then (Inr (error_response ''No data found for this decade'' 404), w)
            else
              (case group_stocks [] stocks of
                 Inl ex \<Rightarrow> (Inl ex, w)
               | Inr groups \<Rightarrow>
                   (case render_markets groups of
                      Inl ex \<Rightarrow> (Inl ex, w)
                    | Inr markets \<Rightarrow>
                        store_and_return cache e cache_key
                          (JObj [(''decade'', JStr decade),
                                 (''markets'', JObj markets),
                                 (''total_stocks'', JInt (int (length stocks))),
                                 (''timestamp'', JStr (isoformat e))]) w)))"

definition get_decade_data ::
  "data_cache \<Rightarrow> env \<Rightarrow> string \<Rightarrow> world \<Rightarrow> (py_exc + response) \<times> world" where
  "get_decade_data cache e decade w =
     (if \<not> validate_decade decade
      then (Inr (error_response ''Invalid decade parameter'' 400), w)
      else let cache_key = ''decade_'' @ decade
           in cached_or cache e cache_key (get_decade_data_try cache e decade cache_key) w)"

subsection \<open>\<^verbatim>\<open>/api/data/market/<market>\<close>\<close>

definition get_market_data_try ::
  "data_cache \<Rightarrow> env \<Rightarrow> string \<Rightarrow> string option \<Rightarrow> string \<Rightarrow> world
     \<Rightarrow> (py_exc + response) \<times> world" where
  "get_market_data_try cache e market decade cache_key w =
     catch_all ''Error fetching market data'' ''Failed to fetch market data''
       (let query = ''SELECT * FROM stock_data WHERE market = ?'' @
                    opt_clause decade '' AND decade = ?'' @ '' ORDER BY decade, symbol'';
            params = [SqlText market] @ opt_param decade
        in case execute e query params of
             Inl ex \<Rightarrow> (Inl ex, w)
           | Inr stocks \<Rightarrow>
               if stocks = [] then (Inr (error_response ''No data found for this market'' 404), w)
               else store_and_return cache e cache_key
                      (JObj [(''market'', JStr market),
                             (''decade'', opt_json decade),
                             (''stocks'', JList (map JObj stocks)),
                             (''total_stocks'', JInt (int (length stocks))),
                             (''timestamp'', JStr (isoformat e))]) w)"

definition get_market_data ::
  "data_cache \<Rightarrow> env \<Rightarrow> request \<Rightarrow> string \<Rightarrow> world \<Rightarrow> (py_exc + response) \<times> world" where
  "get_market_data cache e req market w =
     (if \<not> validate_market market
      then (Inr (error_response ''Invalid market parameter'' 400), w)
      else let decade = args req ''decade'' in
        if invalid_decade decade
        then (Inr (error_response ''Invalid decade parameter'' 400), w)
        else let cache_key = ''market_'' @ market @ ''_'' @ or_all decade
             in cached_or cache e cache_key
                  (get_market_data_try cache e market decade cache_key) w)"

subsection \<open>\<^verbatim>\<open>/api/data/stock/<symbol>\<close>\<close>

text \<open>\<^verbatim>\<open>stocks[0].get('company_name', '')\<close>, for a non-empty list of rows.\<close>

definition first_company_name :: "row list \<Rightarrow> json" where
  "first_company_name stocks =
     (case stocks of
        [] \<Rightarrow> JStr []
      | stock # _ \<Rightarrow> (case map_of stock ''company_name'' of None \<Rightarrow> JStr [] | Some v \<Rightarrow> v))"

definition get_stock_data_try ::
  "data_cache \<Rightarrow> env \<Rightarrow> string \<Rightarrow> string \<Rightarrow> world \<Rightarrow> (py_exc + response) \<times> world" where
  "get_stock_data_try cache e symbol cache_key w =
     catch_all ''Error fetching stock data'' ''Failed to fetch stock data''
       (case execute e ''SELECT * FROM stock_data WHERE UPPER(symbol) = UPPER(?) ORDER BY decade''
               [SqlText symbol] of
          Inl ex \<Rightarrow> (Inl ex, w)
        | Inr stocks \<Rightarrow>
            if stocks = [] then (Inr (error_response ''No data found for this stock'' 404), w)
            else store_and_return cache e cache_key
                   (JObj [(''symbol'', JStr (upper symbol)),
                          (''company_name'', first_company_name stocks),
                          (''historical_data'', JList (map JObj stocks)),
                          (''decades_count'', JInt (int (length stocks))),
                          (''timestamp'', JStr (isoformat e))]) w)"

definition get_stock_data ::
  "data_cache \<Rightarrow> env \<Rightarrow> string \<Rightarrow> world \<Rightarrow> (py_exc + response) \<times> world" where
  "get_stock_data cache e symbol w =
     (if symbol = [] \<or> length symbol > 10
      then (Inr (error_response ''Invalid symbol parameter'' 400), w)
      else let cache_key = ''stock_'' @ upper symbol
           in cached_or cache e cache_key (get_stock_data_try cache e symbol cache_key) w)"

subsection \<open>\<^verbatim>\<open>/api/data/top-performers\<close>\<close>

text \<open>
  \<^verbatim>\<open>min(int(request.args.get('limit', 10)), 50)\<close>: \<open>None\<close> when \<^verbatim>\<open>int\<close> raises
  \<^verbatim>\<open>ValueError\<close>.
\<close>

definition top_limit :: "env \<Rightarrow> request \<Rightarrow> int option" where
  "top_limit e req =
     (case args req ''limit'' of
        None \<Rightarrow> Some (min 10 50)
      | Some s \<Rightarrow> (case int_of_str e s of None \<Rightarrow> None | Some l \<Rightarrow> Some (min l 50)))"

definition get_top_performers_try ::
  "data_cache \<Rightarrow> env \<Rightarrow> string option \<Rightarrow> string option \<Rightarrow> int \<Rightarrow> string \<Rightarrow> world
     \<Rightarrow> (py_exc + response) \<times> world" where
  "get_top_performers_try cache e decade market limit cache_key w =
     catch_all ''Error fetching top performers'' ''Failed to fetch top performers''
       (let query = ''SELECT * FROM stock_data WHERE 1=1'' @
                    opt_clause decade '' AND decade = ?'' @
                    opt_clause market '' AND market = ?'' @
                    '' ORDER BY total_return DESC LIMIT ?'';
            params = opt_param decade @ opt_param market @ [SqlInt limit]
        in case execute e query params of
             Inl ex \<Rightarrow> (Inl ex, w)
           | Inr stocks \<Rightarrow>
               store_and_return cache e cache_key
                 (JObj [(''top_performers'', JList (map JObj stocks)),
                        (''filters'', JObj [(''decade'', opt_json decade),
                                            (''market'', opt_json market),
                                            (''limit'', JInt limit)]),
                        (''count'', JInt (int (length stocks))),
                        (''timestamp'', JStr (isoformat e))]) w)"

definition get_top_performers ::
  "data_cache \<Rightarrow> env \<Rightarrow> request \<Rightarrow> world \<Rightarrow> (py_exc + response) \<times> world" where
  "get_top_performers cache e req w =
     (let decade = args req ''decade''; market = args req ''market'' in
      case top_limit e req of
        None \<Rightarrow> (Inl ValueError, w)
      | Some limit \<Rightarrow>
          if invalid_decade decade
          then (Inr (error_response ''Invalid decade parameter'' 400), w)
          else if invalid_market market
          then (Inr (error_response ''Invalid market parameter'' 400), w)
          else let cache_key = ''top_performers_'' @ or_all decade @ ''_'' @ or_all market @
                               ''_'' @ str_int limit
               in cached_or cache e cache_key
                    (get_top_performers_try cache e decade market limit cache_key) w)"

subsection \<open>\<^verbatim>\<open>/api/data/statistics\<close>\<close>

text \<open>
  \<^verbatim>\<open>round(x, 2)\<close> on the real number that the float stands for: the nearest multiple of
  one hundredth, a tie going to the even one.
\<close>

definition py_round2 :: "real \<Rightarrow> real" where
  "py_round2 x =
     (let y = x * 100; f = \<lfloor>y\<rfloor>; d = y - real_of_int f
      in real_of_int (if d < 1 / 2 then f else if 1 / 2 < d then f + 1
                      else if even f then f else f + 1) / 100)"

definition round_value :: "json \<Rightarrow> py_exc + json" where
  "round_value v =
     (case v of
        JFloat x \<Rightarrow> Inr (JFloat (py_round2 x))
      | JInt n \<Rightarrow> Inr (JInt n)
      | JBool b \<Rightarrow> Inr (JInt (if b then 1 else 0))
      | _ \<Rightarrow> Inl TypeError)"

fun round_stats :: "string list \<Rightarrow> row \<Rightarrow> py_exc + row" where
  "round_stats [] stats = Inr stats"
| "round_stats (key # keys) stats =
     (case map_of stats key of
        None \<Rightarrow> Inl KeyError
      | Some v \<Rightarrow>
          if v = JNull then round_stats keys stats
          else (case round_value v of
                  Inl ex \<Rightarrow> Inl ex
                | Inr v' \<Rightarrow> round_stats keys (dict_set key v' stats)))"

definition statistics_query :: string where
  "statistics_query =
     ''SELECT COUNT(*) as total_stocks, AVG(total_return) as avg_return, '' @
     ''MAX(total_return) as max_return, MIN(total_return) as min_return, '' @
     ''AVG(volatility) as avg_volatility, COUNT(DISTINCT market) as markets_count, '' @
     ''COUNT(DISTINCT decade) as decades_count FROM stock_data WHERE 1=1''"

definition get_statistics_try ::
  "data_cache \<Rightarrow> env \<Rightarrow> string option \<Rightarrow> string option \<Rightarrow> string \<Rightarrow> world
     \<Rightarrow> (py_exc + response) \<times> world" where
  "get_statistics_try cache e decade market cache_key w =
     catch_all ''Error fetching statistics'' ''Failed to fetch statistics''
       (let query = statistics_query @
                    opt_clause decade '' AND decade = ?'' @
                    opt_clause market '' AND market = ?'';
            params = opt_param decade @ opt_param market
        in case execute e query params of
             Inl ex \<Rightarrow> (Inl ex, w)
           | Inr [] \<Rightarrow> (Inl TypeError, w)
           | Inr (row # _) \<Rightarrow>
               (case round_stats [''avg_return'', ''max_return'', ''min_return'', ''avg_volatility'']
                       row of
                  Inl ex \<Rightarrow> (Inl ex, w)
                | Inr stats \<Rightarrow>
                    store_and_return cache e cache_key
                      (JObj [(''statistics'', JObj stats),
                             (''filters'', JObj [(''decade'', opt_json decade),
                                                 (''market'', opt_json market)]),
                             (''timestamp'', JStr (isoformat e))]) w))"

definition get_statistics ::
  "data_cache \<Rightarrow> env \<Rightarrow> request \<Rightarrow> world \<Rightarrow> (py_exc + response) \<times> world" where
  "get_statistics cache e req w =
     (let decade = args req ''decade''; market = args req ''market'' in
      if invalid_decade decade
      then (Inr (error_response ''Invalid decade parameter'' 400), w)
      else if invalid_market market
      then (Inr (error_response ''Invalid market parameter'' 400), w)
      else let cache_key = ''statistics_'' @ or_all decade @ ''_'' @ or_all market
           in cached_or cache e cache_key
                (get_statistics_try cache e decade market cache_key) w)"

subsection \<open>\<^verbatim>\<open>/api/data/export\<close>\<close>

definition attachment :: "string \<Rightarrow> string \<Rightarrow> string \<Rightarrow> response" where
  "attachment text mimetype filename =
     \<lparr>status_code = 200, body = RawBody text,
      headers = [''Content-Type'' \<mapsto> mimetype,
                 ''Content-Disposition'' \<mapsto> ''attachment; filename='' @ filename]\<rparr>"

definition export_data_try ::
  "env \<Rightarrow> string option \<Rightarrow> string option \<Rightarrow> string \<Rightarrow> world \<Rightarrow> (py_exc + response) \<times> world" where
  "export_data_try e decade market format_type w =
     catch_all ''Error exporting data'' ''Failed to export data''
       (let query = ''SELECT * FROM stock_data WHERE 1=1'' @
                    opt_clause decade '' AND decade = ?'' @
                    opt_clause market '' AND market = ?'' @
                    '' ORDER BY decade, market, symbol'';
            params = opt_param decade @ opt_param market;
            name = ''financiera_data_'' @ or_all decade @ ''_'' @ or_all market
        in case execute e query params of
             Inl ex \<Rightarrow> (Inl ex, w)
           | Inr df \<Rightarrow>
               if df = [] then (Inr (error_response ''No data found for export'' 404), w)
               else if format_type = ''csv''
               then (Inr (attachment (to_csv e df) ''text/csv'' (name @ ''.csv'')), w)
               else (Inr (attachment (to_json e df) ''application/json'' (name @ ''.json'')), w))"

definition export_data :: "env \<Rightarrow> request \<Rightarrow> world \<Rightarrow> (py_exc + response) \<times> world" where
  "export_data e req w =
     (let decade = args req ''decade''; market = args req ''market'';
          format_type = lower (case args req ''format'' of None \<Rightarrow> ''csv'' | Some s \<Rightarrow> s) in
      if format_type \<notin> set [''csv'', ''json'']
      then (Inr (error_response ''Invalid format. Use csv or json'' 400), w)
      else if invalid_decade decade
      then (Inr (error_response ''Invalid decade parameter'' 400), w)
      else if invalid_market market
      then (Inr (error_response ''Invalid market parameter'' 400), w)
      else export_data_try e decade market format_type w)"

subsection \<open>The routes\<close>

text \<open>
  The rate-limited routes of the application, with the parameter that the path carries.
  \<open>view\<close> is the view function that the route names, and \<open>route\<close> the view under
  its \<^verbatim>\<open>@require_rate_limit\<close> decorator.
\<close>

datatype endpoint =
    Decades
  | Markets
  | DecadeData string
  | MarketData string
  | StockData string
  | TopPerformers
  | Statistics
  | Export

fun view ::
  "data_cache \<Rightarrow> env \<Rightarrow> request \<Rightarrow> endpoint \<Rightarrow> world \<Rightarrow> (py_exc + response) \<times> world" where
  "view cache e req Decades = get_decades cache e"
| "view cache e req Markets = get_markets cache e"
| "view cache e req (DecadeData decade) = get_decade_data cache e decade"
| "view cache e req (MarketData market) = get_market_data cache e req market"
| "view cache e req (StockData symbol) = get_stock_data cache e symbol"
| "view cache e req TopPerformers = get_top_performers cache e req"
| "view cache e req Statistics = get_statistics cache e req"
| "view cache e req Export = export_data e req"

definition route ::
  "config \<Rightarrow> env \<Rightarrow> request \<Rightarrow> endpoint \<Rightarrow> world \<Rightarrow> (py_exc + response) \<times> world" where
  "route cfg e req ep = require_rate_limit cfg e req (view (app_cache cfg) e req ep)"

section \<open>Notions used in the statements\<close>

text \<open>
  A request fails validation when one of the checks of its handler answers with status 400.
  The top performers handler converts the limit before it validates, so its checks are
  reached only by a limit that converts.
\<close>

fun fails_validation :: "env \<Rightarrow> request \<Rightarrow> endpoint \<Rightarrow> bool" where
  "fails_validation e req Decades = False"
| "fails_validation e req Markets = False"
| "fails_validation e req (DecadeData decade) = (\<not> validate_decade decade)"
| "fails_validation e req (MarketData market) =
     (\<not> validate_market market \<or> invalid_decade (args req ''decade''))"
| "fails_validation e req (StockData symbol) = (symbol = [] \<or> length symbol > 10)"
| "fails_validation e req TopPerformers =
     (top_limit e req \<noteq> None \<and>
      (invalid_decade (args req ''decade'') \<or> invalid_market (args req ''market'')))"
| "fails_validation e req Statistics =
     (invalid_decade (args req ''decade'') \<or> invalid_market (args req ''market''))"
| "fails_validation e req Export =
     (lower (case args req ''format'' of None \<Rightarrow> ''csv'' | Some s \<Rightarrow> s) \<notin> set [''csv'', ''json''] \<or>
      invalid_decade (args req ''decade'') \<or> invalid_market (args req ''market''))"

text \<open>
  The cache key of a request to a cached route; none for the export, which is not cached,
  and for a limit that does not convert.
\<close>

fun cache_key_of :: "env \<Rightarrow> request \<Rightarrow> endpoint \<Rightarrow> string option" where
  "cache_key_of e req Decades = Some ''decades_list''"
| "cache_key_of e req Markets = Some ''markets_list''"
| "cache_key_of e req (DecadeData decade) = Some (''decade_'' @ decade)"
| "cache_key_of e req (MarketData market) =
     Some (''market_'' @ market @ ''_'' @ or_all (args req ''decade''))"
| "cache_key_of e req (StockData symbol) = Some (''stock_'' @ upper symbol)"
| "cache_key_of e req TopPerformers =
     (case top_limit e req of
        None \<Rightarrow> None
      | Some limit \<Rightarrow>
          Some (''top_performers_'' @ or_all (args req ''decade'') @ ''_'' @
                or_all (args req ''market'') @ ''_'' @ str_int limit))"
| "cache_key_of e req Statistics =
     Some (''statistics_'' @ or_all (args req ''decade'') @ ''_'' @ or_all (args req ''market''))"
| "cache_key_of e req Export = None"

text \<open>What the handler of a cached route does on a cache miss: its \<^verbatim>\<open>try\<close> statement.\<close>

fun recompute ::
  "data_cache \<Rightarrow> env \<Rightarrow> request \<Rightarrow> endpoint \<Rightarrow> string \<Rightarrow> world \<Rightarrow> (py_exc + response) \<times> world" where
  "recompute cache e req Decades key = get_decades_try cache e key"
| "recompute cache e req Markets key = get_markets_try cache e key"
| "recompute cache e req (DecadeData decade) key = get_decade_data_try cache e decade key"
| "recompute cache e req (MarketData market) key =
     get_market_data_try cache e market (args req ''decade'') key"
| "recompute cache e req (StockData symbol) key = get_stock_data_try cache e symbol key"
| "recompute cache e req TopPerformers key =
     (case top_limit e req of
        None \<Rightarrow> (\<lambda>w. (Inl ValueError, w))
      | Some limit \<Rightarrow>
          get_top_performers_try cache e (args req ''decade'') (args req ''market'') limit key)"
| "recompute cache e req Statistics key =
     get_statistics_try cache e (args req ''decade'') (args req ''market'') key"
| "recompute cache e req Export key =
     export_data_try e (args req ''decade'') (args req ''market'')
       (lower (case args req ''format'' of None \<Rightarrow> ''csv'' | Some s \<Rightarrow> s))"

text \<open>Concrete inputs for the examples.\<close>

definition ex_config :: config where
  "ex_config = \<lparr>RATE_LIMIT_REQUESTS = 1, RATE_LIMIT_WINDOW = 15, CACHE_TTL = 60\<rparr>"

definition ex_request :: request where
  "ex_request = \<lparr>forwarded_for = None, remote_addr = ''10.0.0.1'', args = Map.empty\<rparr>"

definition ex_env :: env where
  "ex_env = \<lparr>now = 5, io = no_faults, isoformat = ''2024-01-01T00:00:05'',
             execute = (\<lambda>query params. Inr [[(''decade'', JStr ''1920s'')]]),
             int_of_str = (\<lambda>s. if s = ''-5'' then Some (- 5) else None),
             to_csv = (\<lambda>df. []), to_json = (\<lambda>df. [])\<rparr>"

definition ex_world :: world where
  "ex_world = \<lparr>limiter = app_rate_limiter ex_config, files = Map.empty, logged = []\<rparr>"

definition ex_cache :: data_cache where
  "ex_cache = DataCache_init ''cache'' 1"

definition ex_busy_world :: world where
  "ex_busy_world =
     ex_world\<lparr>limiter := (app_rate_limiter ex_config)\<lparr>requests := [''10.0.0.1'' \<mapsto> [2]]\<rparr>\<rparr>"

definition ex_limit_request :: request where
  "ex_limit_request = ex_request\<lparr>args := [''limit'' \<mapsto> ''-5'']\<rparr>"

definition ex_falsy_world :: world where
  "ex_falsy_world = ex_world\<lparr>files :=
      [''cache/decades_list.json'' \<mapsto> File \<lparr>st_mtime = 0, content = Document (JObj [])\<rparr>]\<rparr>"


text \<open>
  A key of 300 characters, and a cache directory in which the file system answers
  \<^verbatim>\<open>stat\<close> on its path with the error of a name that is too long.
\<close>

definition ex_long_key :: string where
  "ex_long_key = replicate 300 CHR ''a''"

definition ex_long_world :: world where
  "ex_long_world = ex_world\<lparr>files := [cache_path ex_cache ex_long_key \<mapsto> Unreachable]\<rparr>"

text \<open>A cache directory in which the file of the decades list holds bytes that are no text.\<close>

definition ex_corrupt_world :: world where
  "ex_corrupt_world = ex_world\<lparr>files :=
      [''cache/decades_list.json'' \<mapsto> File \<lparr>st_mtime = 0, content = NotUtf8\<rparr>]\<rparr>"

section \<open>Properties of one admission check\<close>


lemma kept_eq_recent:
  fixes self :: rate_limiter and current_time :: real and client_ip :: string
  defines "cutoff \<equiv> current_time - real_of_int (window_seconds self)"
  defines "cleaned \<equiv> (\<lambda>ip. case requests self ip of
                       None \<Rightarrow> None
                     | Some timestamps \<Rightarrow>
                         if list_ex (\<lambda>ts. ts > cutoff) timestamps
                         then Some timestamps else None)"
  defines "present \<equiv> (if cleaned client_ip = None then cleaned(client_ip \<mapsto> []) else cleaned)"
  shows "filter (\<lambda>ts. ts > cutoff)
           (case present client_ip of None \<Rightarrow> [] | Some timestamps \<Rightarrow> timestamps)
         = recent self current_time client_ip"
proof (cases "requests self client_ip")
  case None
  then show ?thesis
    by (simp add: present_def cleaned_def recent_def client_timestamps_def)
next
  case (Some l)
  show ?thesis
  proof (cases "list_ex (\<lambda>ts. ts > cutoff) l")
    case True
    with Some show ?thesis
      by (simp add: present_def cleaned_def recent_def client_timestamps_def cutoff_def)
  next
    case False
    then have "filter (\<lambda>ts. ts > cutoff) l = []"
      by (simp add: list_ex_iff filter_empty_conv)
    with Some False show ?thesis
      by (simp add: present_def cleaned_def recent_def client_timestamps_def cutoff_def)
  qed
qed

lemma is_allowed_fst:
  "fst (is_allowed self t c) = (int (length (recent self t c)) < max_requests self)"
  using kept_eq_recent [of t self c]
  by (simp add: is_allowed_def Let_def)

lemma is_allowed_requests_client:
  "requests (snd (is_allowed self t c)) c =
     Some (if fst (is_allowed self t c) then recent self t c @ [t] else recent self t c)"
  using kept_eq_recent [of t self c]
  by (simp add: is_allowed_def Let_def)

lemma is_allowed_config:
  "max_requests (snd (is_allowed self t c)) = max_requests self"
  "window_seconds (snd (is_allowed self t c)) = window_seconds self"
  by (simp_all add: is_allowed_def Let_def)

lemma run_calls_config:
  "max_requests (snd (run_calls self c ts)) = max_requests self \<and>
   window_seconds (snd (run_calls self c ts)) = window_seconds self"
  by (induction ts arbitrary: self) (simp_all add: split_beta is_allowed_config)

lemma run_calls_length: "length (fst (run_calls self c ts)) = length ts"
  by (induction ts arbitrary: self) (simp_all add: split_beta)

lemma run_calls_append:
  "run_calls self c (xs @ ys) =
     (fst (run_calls self c xs) @ fst (run_calls (snd (run_calls self c xs)) c ys),
      snd (run_calls (snd (run_calls self c xs)) c ys))"
  by (induction xs arbitrary: self) (simp_all add: split_beta)


lemma safe_Cons: "safe w (t # ts) x = (t - real_of_int w < x \<and> safe w ts x)"
  by (simp add: safe_def)

lemma filter_safe_recent:
  "filter (safe (window_seconds self) ts) (recent self t c) =
   filter (safe (window_seconds self) (t # ts)) (client_timestamps self c)"
proof -
  have "safe (window_seconds self) (t # ts) =
          (\<lambda>x. t - real_of_int (window_seconds self) < x \<and> safe (window_seconds self) ts x)"
    by (rule ext) (auto simp: safe_Cons)
  then show ?thesis by (simp add: recent_def)
qed

lemma within_window_Cons:
  "within_window w (t # ts) \<Longrightarrow> within_window w ts"
  "within_window w (t # ts) \<Longrightarrow> safe w ts t"
proof -
  assume w: "within_window w (t # ts)"
  show "within_window w ts"
    using w by (simp add: within_window_def)
  show "safe w ts t"
    unfolding safe_def
  proof
    fix t' assume "t' \<in> set ts"
    with w have "t' - t < real_of_int w"
      by (simp add: within_window_def)
    then show "t' - real_of_int w < t" by linarith
  qed
qed

lemma client_timestamps_step:
  "client_timestamps (snd (is_allowed self t c)) c =
     (if fst (is_allowed self t c) then recent self t c @ [t] else recent self t c)"
  by (simp add: client_timestamps_def is_allowed_requests_client)

lemma safe_count_step:
  assumes "safe (window_seconds self) ts t"
  shows "length (filter (safe (window_seconds self) ts) (client_timestamps (snd (is_allowed self t c)) c))
       = length (filter (safe (window_seconds self) (t # ts)) (client_timestamps self c))
         + (if fst (is_allowed self t c) then 1 else 0)"
  using assms by (simp add: client_timestamps_step filter_safe_recent)

lemma safe_le_recent:
  "length (filter (safe (window_seconds self) (t # ts)) (client_timestamps self c))
     \<le> length (recent self t c)"
  unfolding filter_safe_recent [symmetric] by (rule length_filter_le)

lemma run_calls_bound:
  assumes "within_window (window_seconds self) ts"
    and "int k \<le> max_requests self"
    and "k \<le> length (filter (safe (window_seconds self) ts) (client_timestamps self c))"
  shows "int (count_list (fst (run_calls self c ts)) True) + int k \<le> max_requests self"
  using assms
proof (induction ts arbitrary: self k)
  case Nil
  then show ?case by simp
next
  case (Cons t ts)
  let ?s = "snd (is_allowed self t c)"
  let ?w = "window_seconds self"
  from Cons.prems(1) have ww: "within_window ?w ts" and st: "safe ?w ts t"
    using within_window_Cons by blast+
  have cfg: "window_seconds ?s = ?w" "max_requests ?s = max_requests self"
    by (simp_all add: is_allowed_config)
  show ?case
  proof (cases "fst (is_allowed self t c)")
    case True
    have "k \<le> length (recent self t c)"
      using Cons.prems(3) safe_le_recent [of self t ts c] by linarith
    with True have k1: "int (Suc k) \<le> max_requests self"
      by (simp add: is_allowed_fst)
    have "Suc k \<le> length (filter (safe ?w ts) (client_timestamps ?s c))"
      using safe_count_step [OF st, of c] True Cons.prems(3) by simp
    then have "int (count_list (fst (run_calls ?s c ts)) True) + int (Suc k) \<le> max_requests ?s"
      using Cons.IH [of ?s "Suc k"] ww k1 cfg by simp
    with True show ?thesis by (simp add: split_beta cfg)
  next
    case False
    have "k \<le> length (filter (safe ?w ts) (client_timestamps ?s c))"
      using safe_count_step [OF st, of c] False Cons.prems(3) by simp
    then have "int (count_list (fst (run_calls ?s c ts)) True) + int k \<le> max_requests ?s"
      using Cons.IH [of ?s k] ww Cons.prems(2) cfg by simp
    with False show ?thesis by (simp add: split_beta cfg)
  qed
qed

lemma run_calls_all_rejected:
  assumes "max_requests self \<le> int (length (filter (safe (window_seconds self) ts) (client_timestamps self c)))"
  shows "fst (run_calls self c ts) = replicate (length ts) False"
  using assms
proof (induction ts arbitrary: self)
  case Nil
  then show ?case by simp
next
  case (Cons t ts)
  let ?s = "snd (is_allowed self t c)"
  let ?w = "window_seconds self"
  have cfg: "window_seconds ?s = ?w" "max_requests ?s = max_requests self"
    by (simp_all add: is_allowed_config)
  have rej: "\<not> fst (is_allowed self t c)"
    using Cons.prems safe_le_recent [of self t ts c] by (simp add: is_allowed_fst)
  then have "client_timestamps ?s c = recent self t c"
    by (simp add: client_timestamps_step)
  then have "max_requests ?s \<le> int (length (filter (safe (window_seconds ?s) ts) (client_timestamps ?s c)))"
    using Cons.prems by (simp add: cfg filter_safe_recent)
  then have "fst (run_calls ?s c ts) = replicate (length ts) False"
    by (rule Cons.IH)
  with rej show ?case by (simp add: split_beta)
qed

lemma run_calls_safe_count:
  assumes "within_window (window_seconds self) (ts1 @ ts2)"
  shows "count_list (fst (run_calls self c ts1)) True
           + length (filter (safe (window_seconds self) (ts1 @ ts2)) (client_timestamps self c))
         \<le> length (filter (safe (window_seconds self) ts2)
               (client_timestamps (snd (run_calls self c ts1)) c))"
  using assms
proof (induction ts1 arbitrary: self)
  case Nil
  then show ?case by simp
next
  case (Cons t ts1)
  let ?s = "snd (is_allowed self t c)"
  let ?w = "window_seconds self"
  from Cons.prems have ww: "within_window ?w (ts1 @ ts2)" and st: "safe ?w (ts1 @ ts2) t"
    using within_window_Cons [of ?w t "ts1 @ ts2"] by simp_all
  have cfg: "window_seconds ?s = ?w"
    by (simp add: is_allowed_config)
  have "count_list (fst (run_calls ?s c ts1)) True
           + length (filter (safe ?w (ts1 @ ts2)) (client_timestamps ?s c))
         \<le> length (filter (safe ?w ts2) (client_timestamps (snd (run_calls ?s c ts1)) c))"
    using Cons.IH [of ?s] ww cfg by simp
  then show ?case
    using safe_count_step [OF st, of c]
    by (cases "fst (is_allowed self t c)") (simp_all add: split_beta)
qed

lemma run_calls_pattern:
  assumes "within_window (window_seconds self) ts"
    and "\<forall>x \<in> set (client_timestamps self c). safe (window_seconds self) ts x"
  shows "fst (run_calls self c ts) =
           map (\<lambda>i. int (length (client_timestamps self c)) + int i < max_requests self) [0..<length ts]"
  using assms
proof (induction ts arbitrary: self)
  case Nil
  then show ?case by simp
next
  case (Cons t ts)
  let ?s = "snd (is_allowed self t c)"
  let ?w = "window_seconds self"
  let ?L = "client_timestamps self c"
  from Cons.prems(1) have ww: "within_window ?w ts" and st: "safe ?w ts t"
    using within_window_Cons by blast+
  have cfg: "window_seconds ?s = ?w" "max_requests ?s = max_requests self"
    by (simp_all add: is_allowed_config)
  have rec: "recent self t c = ?L"
    using Cons.prems(2) by (simp add: recent_def safe_Cons)
  have ok: "fst (is_allowed self t c) = (int (length ?L) < max_requests self)"
    by (simp add: is_allowed_fst rec)
  have upt: "[0..<length (t # ts)] = 0 # map Suc [0..<length ts]"
    by (simp add: upt_conv_Cons map_Suc_upt del: upt_Suc)
  have safe': "\<forall>x \<in> set (client_timestamps ?s c). safe (window_seconds ?s) ts x"
    using Cons.prems(2) st by (simp add: client_timestamps_step rec cfg safe_Cons)
  have IH: "fst (run_calls ?s c ts) =
           map (\<lambda>i. int (length (client_timestamps ?s c)) + int i < max_requests self) [0..<length ts]"
    using Cons.IH [OF _ safe'] ww cfg by simp
  show ?case
  proof (cases "int (length ?L) < max_requests self")
    case True
    then have "client_timestamps ?s c = ?L @ [t]"
      by (simp add: client_timestamps_step rec ok)
    with IH True show ?thesis
      unfolding upt by (auto simp: split_beta ok comp_def)
  next
    case False
    then have "client_timestamps ?s c = ?L"
      by (simp add: client_timestamps_step rec ok)
    with IH False show ?thesis
      unfolding upt by (simp add: split_beta ok comp_def)
  qed
qed


lemma run_calls_rejected_after_limit:
  assumes ww: "within_window (window_seconds self) ts"
    and i: "i < length ts"
    and full: "max_requests self \<le> int (count_list (take i (fst (run_calls self c ts))) True)"
  shows "\<not> fst (run_calls self c ts) ! i"
proof -
  let ?w = "window_seconds self"
  let ?s = "snd (run_calls self c (take i ts))"
  let ?pre = "fst (run_calls self c (take i ts))"
  let ?post = "fst (run_calls ?s c (drop i ts))"
  have split: "fst (run_calls self c ts) = ?pre @ ?post"
    using run_calls_append [of self c "take i ts" "drop i ts"] by simp
  have len: "length ?pre = i"
    using i by (simp add: run_calls_length)
  have cfg: "window_seconds ?s = ?w" "max_requests ?s = max_requests self"
    by (simp_all add: run_calls_config)
  have "count_list ?pre True
          \<le> length (filter (safe ?w (drop i ts)) (client_timestamps ?s c))"
    using run_calls_safe_count [of self "take i ts" "drop i ts" c] ww by simp
  moreover have "max_requests self \<le> int (count_list ?pre True)"
    using full by (simp add: split len)
  ultimately have "max_requests ?s
      \<le> int (length (filter (safe (window_seconds ?s) (drop i ts)) (client_timestamps ?s c)))"
    by (simp add: cfg)
  then have "?post = replicate (length (drop i ts)) False"
    by (rule run_calls_all_rejected)
  then have "?post ! 0 = False"
    using i by simp
  then show ?thesis
    by (simp add: split nth_append len)
qed

text \<open>
  Claim C1. A call of \<open>is_allowed\<close> returns false, and leaves the client with its pruned
  timestamps only, exactly when the client's recorded timestamps strictly newer than
  \<open>now - window_seconds\<close> number at least \<open>max_requests\<close>; otherwise it appends the
  current time and returns true. For a sequence of calls by one client inside one window:
  at most \<open>max_requests\<close> of them are admitted (for a limit that is not negative), every
  call made once \<open>max_requests\<close> calls of the sequence have been admitted is rejected, and
  for a client without a record exactly the first \<open>max_requests\<close> calls are admitted, so
  that call number \<open>max_requests + 1\<close> is rejected.
\<close>
theorem is_allowed_sliding_window:
  "(fst (is_allowed self t c) = (\<not> max_requests self \<le> int (length (recent self t c)))) \<and>
   requests (snd (is_allowed self t c)) c =
     Some (if max_requests self \<le> int (length (recent self t c))
           then recent self t c else recent self t c @ [t]) \<and>
   (within_window (window_seconds self) ts \<longrightarrow>
      (0 \<le> max_requests self \<longrightarrow>
         int (count_list (fst (run_calls self c ts)) True) \<le> max_requests self) \<and>
      (\<forall>i < length ts.
         max_requests self \<le> int (count_list (take i (fst (run_calls self c ts))) True) \<longrightarrow>
         \<not> fst (run_calls self c ts) ! i) \<and>
      (requests self c = None \<longrightarrow>
         fst (run_calls self c ts) = map (\<lambda>i. int i < max_requests self) [0..<length ts]))"
proof (intro conjI impI allI)
  show "fst (is_allowed self t c) = (\<not> max_requests self \<le> int (length (recent self t c)))"
    by (simp add: is_allowed_fst not_le)
  show "requests (snd (is_allowed self t c)) c =
     Some (if max_requests self \<le> int (length (recent self t c))
           then recent self t c else recent self t c @ [t])"
    by (simp add: is_allowed_requests_client is_allowed_fst not_less)
next
  assume "within_window (window_seconds self) ts" "0 \<le> max_requests self"
  then show "int (count_list (fst (run_calls self c ts)) True) \<le> max_requests self"
    using run_calls_bound [of self ts 0 c] by simp
next
  fix i
  assume "within_window (window_seconds self) ts" "i < length ts"
    "max_requests self \<le> int (count_list (take i (fst (run_calls self c ts))) True)"
  then show "\<not> fst (run_calls self c ts) ! i"
    by (rule run_calls_rejected_after_limit)
next
  assume "within_window (window_seconds self) ts" "requests self c = None"
  then show "fst (run_calls self c ts) = map (\<lambda>i. int i < max_requests self) [0..<length ts]"
    using run_calls_pattern [of self ts c] by (simp add: client_timestamps_def)
qed

text \<open>
  The scenario of the specification: limit 2, window 60 seconds, calls at 0, 10 and 20.
\<close>
theorem is_allowed_sliding_window_witness:
  "within_window (window_seconds (RateLimiter_init 2 1)) [0, 10, 20] \<and>
   0 \<le> max_requests (RateLimiter_init 2 1) \<and>
   requests (RateLimiter_init 2 1) ''A'' = None \<and>
   fst (run_calls (RateLimiter_init 2 1) ''A'' [0, 10, 20]) = [True, True, False] \<and>
   int (count_list (fst (run_calls (RateLimiter_init 2 1) ''A'' [0, 10, 20])) True) \<le> 2 \<and>
   (2::nat) < length [0::real, 10, 20] \<and>
   max_requests (RateLimiter_init 2 1)
     \<le> int (count_list (take 2 (fst (run_calls (RateLimiter_init 2 1) ''A'' [0, 10, 20]))) True) \<and>
   \<not> fst (run_calls (RateLimiter_init 2 1) ''A'' [0, 10, 20]) ! 2"
proof -
  let ?rl = "RateLimiter_init 2 1"
  have w: "within_window (window_seconds ?rl) [0, 10, 20]"
    by (simp add: within_window_def RateLimiter_init_def)
  have m: "0 \<le> max_requests ?rl" "max_requests ?rl = 2"
    by (simp_all add: RateLimiter_init_def)
  have n: "requests ?rl ''A'' = None"
    by (simp add: RateLimiter_init_def)
  have up: "[0..<3] = [0, 1, 2]"
    by (simp add: upt_rec)
  from is_allowed_sliding_window [of ?rl 20 "''A''" "[0, 10, 20]"] w n
  have r: "fst (run_calls ?rl ''A'' [0, 10, 20]) = [True, True, False]"
    by (simp add: m up)
  show ?thesis
    using w m n r by simp
qed

lemma spec_scenario:
  "fst (run_calls (RateLimiter_init 2 1) ''A'' [0, 10, 20, 61]) = [True, True, False, True]"
  by (simp add: is_allowed_fst is_allowed_config split_beta RateLimiter_init_def recent_def client_timestamps_def is_allowed_requests_client)

lemma is_allowed_requests_other:
  "ip \<noteq> c \<Longrightarrow>
   requests (snd (is_allowed self t c)) ip =
     (case requests self ip of
        None \<Rightarrow> None
      | Some l \<Rightarrow> if \<exists>ts \<in> set l. t - real_of_int (window_seconds self) < ts then Some l else None)"
  by (simp add: is_allowed_def Let_def list_ex_iff split: option.splits)

text \<open>
  Claim C3, amended. After a call \<open>is_allowed\<close> for client \<open>c\<close>, with the cutoff
  \<open>now - window_seconds\<close>: the client \<open>c\<close> is tracked, and every timestamp of its
  sequence is strictly newer than the cutoff or is the time just appended (all of them are
  strictly newer when the window is positive), and its sequence is not empty when
  \<open>max_requests\<close> is positive. Every other tracked client has its sequence unchanged,
  stale timestamps included, and has at least one timestamp strictly newer than the cutoff;
  the entry of another client none of whose timestamps is newer than the cutoff is removed.
\<close>
theorem is_allowed_prune:
  assumes "self' = snd (is_allowed self t c)"
    and "cutoff = t - real_of_int (window_seconds self)"
  shows "(\<exists>kept. requests self' c = Some kept \<and>
            (\<forall>ts \<in> set kept. cutoff < ts \<or> ts = t) \<and>
            (0 < window_seconds self \<longrightarrow> (\<forall>ts \<in> set kept. cutoff < ts)) \<and>
            (0 < max_requests self \<longrightarrow> kept \<noteq> [])) \<and>
         (\<forall>ip l. ip \<noteq> c \<longrightarrow> requests self' ip = Some l \<longrightarrow>
            requests self ip = Some l \<and> (\<exists>ts \<in> set l. cutoff < ts)) \<and>
         (\<forall>ip l. ip \<noteq> c \<longrightarrow> requests self ip = Some l \<longrightarrow>
            (\<forall>ts \<in> set l. ts \<le> cutoff) \<longrightarrow> requests self' ip = None)"
proof (intro conjI allI impI)
  let ?kept = "if fst (is_allowed self t c) then recent self t c @ [t] else recent self t c"
  have a: "requests self' c = Some ?kept"
    by (simp add: assms is_allowed_requests_client)
  have r: "\<forall>ts \<in> set (recent self t c). cutoff < ts"
    by (simp add: recent_def assms)
  have b: "\<forall>ts \<in> set ?kept. cutoff < ts \<or> ts = t"
    using r by auto
  have c: "0 < window_seconds self \<longrightarrow> (\<forall>ts \<in> set ?kept. cutoff < ts)"
    using r by (auto simp: assms)
  have d: "0 < max_requests self \<longrightarrow> ?kept \<noteq> []"
    by (auto simp: is_allowed_fst)
  show "\<exists>kept. requests self' c = Some kept \<and>
            (\<forall>ts \<in> set kept. cutoff < ts \<or> ts = t) \<and>
            (0 < window_seconds self \<longrightarrow> (\<forall>ts \<in> set kept. cutoff < ts)) \<and>
            (0 < max_requests self \<longrightarrow> kept \<noteq> [])"
    using a b c d by blast
next
  fix ip l
  assume "ip \<noteq> c" "requests self' ip = Some l"
  then show "requests self ip = Some l" "\<exists>ts \<in> set l. cutoff < ts"
    by (auto simp: assms is_allowed_requests_other split: option.splits if_splits)
next
  fix ip l
  assume "ip \<noteq> c" "requests self ip = Some l" "\<forall>ts \<in> set l. ts \<le> cutoff"
  then show "requests self' ip = None"
    by (auto simp: assms is_allowed_requests_other)
qed


text \<open>
  The claim as stated fails: client B keeps the timestamp 0 although the cutoff is 60, and
  with a limit of 0 the rejected client A stays tracked with an empty sequence.
\<close>
theorem is_allowed_prune_counterexample:
  "requests (snd (is_allowed ex_limiter 120 ''A'')) ''B'' = Some [0, 100] \<and>
   (0::real) \<le> 120 - real_of_int (window_seconds ex_limiter) \<and>
   requests (snd (is_allowed \<lparr>max_requests = 0, window_seconds = 60, requests = Map.empty\<rparr> 120 ''A'')) ''A''
     = Some []"
  by (simp add: is_allowed_requests_other is_allowed_requests_client is_allowed_fst ex_limiter_def recent_def client_timestamps_def)

theorem is_allowed_prune_witness:
  "0 < window_seconds ex_limiter \<and> 0 < max_requests ex_limiter \<and> ''B'' \<noteq> ''A'' \<and>
   ''C'' \<noteq> ''A'' \<and> (10::real) \<le> 120 - real_of_int (window_seconds ex_limiter) \<and>
   requests (snd (is_allowed ex_limiter 120 ''A'')) ''A'' = Some [120] \<and>
   requests (snd (is_allowed ex_limiter 120 ''A'')) ''B'' = Some [0, 100] \<and>
   requests ex_limiter ''C'' = Some [10] \<and>
   requests (snd (is_allowed ex_limiter 120 ''A'')) ''C'' = None"
proof -
  let ?s = "snd (is_allowed ex_limiter 120 ''A'')"
  have c: "requests ex_limiter ''C'' = Some [10]" "\<forall>ts \<in> set [10::real]. ts \<le> 120 - real_of_int (window_seconds ex_limiter)"
    by (simp_all add: ex_limiter_def)
  from is_allowed_prune [OF refl refl, of ex_limiter 120 "''A''"]
  have "\<forall>ip l. ip \<noteq> ''A'' \<longrightarrow> requests ex_limiter ip = Some l \<longrightarrow>
            (\<forall>ts \<in> set l. ts \<le> 120 - real_of_int (window_seconds ex_limiter)) \<longrightarrow> requests ?s ip = None"
    by blast
  with c have "requests ?s ''C'' = None"
    by simp
  moreover have "requests ?s ''A'' = Some [120]" "requests ?s ''B'' = Some [0, 100]"
    by (simp_all add: is_allowed_requests_other is_allowed_requests_client is_allowed_fst ex_limiter_def recent_def client_timestamps_def)
  ultimately show ?thesis using c by (simp add: ex_limiter_def)
qed

text \<open>
  Claim C8. A limiter with \<open>max_requests = 0\<close> rejects every call, for every client,
  time and state.
\<close>
theorem max_requests_zero_rejects:
  "max_requests self = 0 \<Longrightarrow> fst (is_allowed self t c) = False"
  by (simp add: is_allowed_fst)

theorem max_requests_zero_rejects_witness:
  "max_requests (RateLimiter_init 0 15) = 0 \<and>
   fst (is_allowed (RateLimiter_init 0 15) 5 ''A'') = False"
  using max_requests_zero_rejects [of "RateLimiter_init 0 15" 5 "''A''"]
  by (simp add: RateLimiter_init_def)

lemma run_calls_nonpositive_window:
  assumes "window_seconds self \<le> 0" "0 < max_requests self" "sorted ts"
    and "\<forall>x \<in> set (client_timestamps self c). \<forall>t \<in> set ts. x \<le> t"
  shows "fst (run_calls self c ts) = replicate (length ts) True"
  using assms
proof (induction ts arbitrary: self)
  case Nil
  then show ?case by simp
next
  case (Cons t ts)
  let ?s = "snd (is_allowed self t c)"
  have cfg: "window_seconds ?s = window_seconds self" "max_requests ?s = max_requests self"
    by (simp_all add: is_allowed_config)
  have "\<forall>x \<in> set (client_timestamps self c). \<not> t - real_of_int (window_seconds self) < x"
  proof
    fix x assume "x \<in> set (client_timestamps self c)"
    with Cons.prems(4) have "x \<le> t" by simp
    moreover have "real_of_int (window_seconds self) \<le> 0"
      using Cons.prems(1) by simp
    ultimately show "\<not> t - real_of_int (window_seconds self) < x" by linarith
  qed
  then have rec: "recent self t c = []"
    by (simp add: recent_def filter_empty_conv)
  with Cons.prems(2) have ok: "fst (is_allowed self t c)"
    by (simp add: is_allowed_fst)
  then have "client_timestamps ?s c = [t]"
    by (simp add: client_timestamps_step rec)
  moreover have "\<forall>t' \<in> set ts. t \<le> t'" "sorted ts"
    using Cons.prems(3) by simp_all
  ultimately have "fst (run_calls ?s c ts) = replicate (length ts) True"
    using Cons.IH [of ?s] Cons.prems(1,2) cfg by simp
  with ok show ?case
    by (simp add: split_beta)
qed

text \<open>
  Claim C7, amended. The constructor does not reject a window that is zero or negative: it
  returns a limiter with \<open>window_seconds = 60 * window_minutes \<le> 0\<close>. With a positive
  limit and a clock that does not go back, this limiter admits every call.
\<close>
theorem nonpositive_window_accepted:
  "window_minutes \<le> 0 \<Longrightarrow>
   window_seconds (RateLimiter_init m window_minutes) = window_minutes * 60 \<and>
   window_seconds (RateLimiter_init m window_minutes) \<le> 0 \<and>
   (0 < m \<longrightarrow> sorted ts \<longrightarrow>
      fst (run_calls (RateLimiter_init m window_minutes) c ts) = replicate (length ts) True)"
  using run_calls_nonpositive_window [of "RateLimiter_init m window_minutes" ts c]
  by (simp add: RateLimiter_init_def client_timestamps_def)

text \<open>
  The claim as stated fails: a window of zero minutes is accepted, and the limiter built
  from it admits a call.
\<close>
theorem nonpositive_window_counterexample:
  "window_seconds (RateLimiter_init 100 0) = 0 \<and>
   fst (is_allowed (RateLimiter_init 100 0) 5 ''A'') = True"
  by (simp add: is_allowed_fst RateLimiter_init_def recent_def client_timestamps_def)

theorem nonpositive_window_accepted_witness:
  "(0::int) \<le> 0 \<and> (0::int) < 2 \<and> sorted [0::real, 1, 2] \<and>
   window_seconds (RateLimiter_init 2 0) = 0 \<and>
   fst (run_calls (RateLimiter_init 2 0) ''A'' [0, 1, 2]) = [True, True, True]"
  using nonpositive_window_accepted [of 0 2 "[0, 1, 2]" "''A''"]
  by (simp add: numeral_3_eq_3)

section \<open>Properties of the file cache\<close>

subsection \<open>Paths of plain keys\<close>






subsection \<open>Writing a JSON value\<close>

lemma sequence_sum_all:
  "(\<forall>x \<in> set xs. f x = Inr (g x)) \<Longrightarrow> sequence_sum (map f xs) = Inr (map g xs)"
  by (induction xs) simp_all

lemma dump_py: "dump (py v) = Inr v"
proof (induction v rule: py.induct)
  case (6 xs)
  then have "sequence_sum (map (\<lambda>x. dump (py x)) xs) = Inr (map (\<lambda>x. x) xs)"
    by (intro sequence_sum_all) simp
  then show ?case by (simp add: comp_def)
next
  case (7 kvs)
  then have "sequence_sum (map (\<lambda>kv. case key_text (KStr (fst kv)) of
                           Inl ex \<Rightarrow> Inl ex
                         | Inr k \<Rightarrow> (case dump (snd (KStr (fst kv), py (snd kv))) of
                                       Inl ex \<Rightarrow> Inl ex
                                     | Inr v \<Rightarrow> Inr (k, v))) kvs) = Inr (map (\<lambda>kv. kv) kvs)"
    by (intro sequence_sum_all) (simp add: key_text_def)
  then show ?case by (simp add: comp_def)
qed simp_all

subsection \<open>Reading and writing an entry\<close>

lemma get_absent:
  "files w (cache_path self k) = None \<Longrightarrow> DataCache_get self fl t k w = (Inr None, w)"
  by (simp add: DataCache_get_def)

lemma get_unreachable:
  "files w (cache_path self k) = Some Unreachable \<Longrightarrow>
   DataCache_get self fl t k w = (Inl OSError, w)"
  by (simp add: DataCache_get_def)

lemma get_fresh:
  assumes "files w (cache_path self k) = Some (File f)"
    and "\<not> stat_fails fl" "\<not> read_fails fl"
    and "t - st_mtime f \<le> real_of_int (ttl_seconds self)"
    and "content f = Document v"
  shows "DataCache_get self fl t k w = (Inr (Some v), w)"
  using assms by (simp add: DataCache_get_def get_try_def)


lemma get_caught_fault:
  assumes "files w (cache_path self k) = Some (File f)"
    and "stat_fails fl \<or>
         (real_of_int (ttl_seconds self) < t - st_mtime f \<and> unlink_fails fl) \<or>
         (t - st_mtime f \<le> real_of_int (ttl_seconds self) \<and> (read_fails fl \<or> content f = Garbage))"
  shows "fst (DataCache_get self fl t k w) = Inr None"
    and "files (snd (DataCache_get self fl t k w)) = files w"
    and "\<exists>ex. logged (snd (DataCache_get self fl t k w)) = logged w @ [CacheReadError k ex]"
  using assms by (auto simp add: DataCache_get_def get_try_def)



lemma set_caught_fault:
  assumes "CHR 0x00 \<notin> set k"
    and "open_write_fails fl \<or> files w (cache_path self k) = Some Unreachable"
  shows "DataCache_set self fl t k v w = (Inr (), w\<lparr>logged := logged w @ [CacheWriteError k OSError]\<rparr>)"
  using assms by (auto simp add: DataCache_set_def set_try_def)




lemma ex_paths:
  "cache_path ex_cache ''decades_list'' = ''cache/decades_list.json''"
  "cache_path ex_cache ''markets_list'' = ''cache/markets_list.json''"
  "cache_path ex_cache ''x'' = ''cache/x.json''"
  "cache_path ex_cache ''./x'' = ''cache/x.json''"
  "cache_path ex_cache ''k'' = ''cache/k.json''"
  by (simp_all add: cache_path_def path_join_def path_root_def path_parts_def ex_cache_def
      DataCache_init_def)



text \<open>
  Claim C6 does not hold of the code. A cache file whose bytes are no text makes \<open>get\<close>
  raise \<^verbatim>\<open>UnicodeDecodeError\<close>, and one nested too deep \<^verbatim>\<open>RecursionError\<close>; on a path
  that the file system cannot reach, \<^verbatim>\<open>exists\<close> raises \<^verbatim>\<open>OSError\<close> before the \<^verbatim>\<open>try\<close>.
  \<open>set\<close> raises \<^verbatim>\<open>ValueError\<close> for a key with a NUL character and \<^verbatim>\<open>TypeError\<close> for a
  dictionary key that \<^verbatim>\<open>json\<close> refuses, and leaves the file truncated in the second case.
\<close>
theorem cache_faults_escape:
  "fst (DataCache_get ex_cache no_faults 4 ''decades_list'' ex_corrupt_world)
     = Inl UnicodeDecodeError \<and>
   fst (DataCache_get ex_cache no_faults 4 ''decades_list''
          (ex_world\<lparr>files := [''cache/decades_list.json'' \<mapsto>
                                 File \<lparr>st_mtime = 0, content = TooDeep\<rparr>]\<rparr>))
     = Inl RecursionError \<and>
   fst (DataCache_get ex_cache no_faults 4 ex_long_key ex_long_world) = Inl OSError \<and>
   fst (DataCache_set ex_cache no_faults 4 [CHR ''a'', CHR 0x00] (PInt 1) ex_world)
     = Inl ValueError \<and>
   fst (DataCache_set ex_cache no_faults 4 ''k'' (PDict [(KOther, PInt 1)]) ex_world)
     = Inl TypeError \<and>
   files (snd (DataCache_set ex_cache no_faults 4 ''k'' (PDict [(KOther, PInt 1)]) ex_world))
     ''cache/k.json'' = Some (File \<lparr>st_mtime = 4, content = Garbage\<rparr>)"
proof -
  have f: "files ex_world = Map.empty"
    by (simp add: ex_world_def)
  have t: "ttl_seconds ex_cache = 60"
    by (simp add: ex_cache_def DataCache_init_def)
  have 1: "fst (DataCache_get ex_cache no_faults 4 ''decades_list'' ex_corrupt_world)
     = Inl UnicodeDecodeError"
    by (simp add: DataCache_get_def get_try_def ex_paths ex_corrupt_world_def t no_faults_def)
  have 2: "fst (DataCache_get ex_cache no_faults 4 ''decades_list''
          (ex_world\<lparr>files := [''cache/decades_list.json'' \<mapsto>
                                 File \<lparr>st_mtime = 0, content = TooDeep\<rparr>]\<rparr>))
     = Inl RecursionError"
    by (simp add: DataCache_get_def get_try_def ex_paths t no_faults_def)
  have 3: "fst (DataCache_get ex_cache no_faults 4 ex_long_key ex_long_world) = Inl OSError"
    by (simp add: get_unreachable ex_long_world_def)
  have 4: "fst (DataCache_set ex_cache no_faults 4 [CHR ''a'', CHR 0x00] (PInt 1) ex_world)
     = Inl ValueError"
    by (simp add: DataCache_set_def set_try_def)
  have 5: "DataCache_set ex_cache no_faults 4 ''k'' (PDict [(KOther, PInt 1)]) ex_world
     = (Inl TypeError,
        ex_world\<lparr>files := [''cache/k.json'' \<mapsto> File \<lparr>st_mtime = 4, content = Garbage\<rparr>]\<rparr>)"
    by (simp add: DataCache_set_def set_try_def ex_paths f no_faults_def key_text_def)
  show ?thesis
    using 1 2 3 4 by (simp add: 5)
qed

section \<open>Properties of the rate-limited routes\<close>

lemma require_rate_limit_rejected:
  "\<not> fst (is_allowed (limiter w) (now e) (client_of req)) \<Longrightarrow>
   require_rate_limit cfg e req f w =
     (Inr (throttled cfg),
      w\<lparr>limiter := snd (is_allowed (limiter w) (now e) (client_of req)),
        logged := logged w @ [RateLimitExceeded (client_of req)]\<rparr>)"
  by (simp add: require_rate_limit_def split_beta Let_def)


lemma throttled_status: "status_code (throttled cfg) = 429"
  by (simp add: throttled_def add_headers_def jsonify_def)

lemma throttled_body:
  "body (throttled cfg) = JsonBody (JObj
     [(''error'', JStr ''Rate limit exceeded''),
      (''message'', JStr (''Maximum '' @ str_int (RATE_LIMIT_REQUESTS cfg) @ '' requests per '' @
                          str_int (RATE_LIMIT_WINDOW cfg) @ '' minutes''))])"
  by (simp add: throttled_def add_headers_def jsonify_def)

text \<open>
  Claim C5. When the limiter rejects the client of a request, the decorated view returns
  the throttling response: status 429, an error label, and a message that names the
  configured limit and window. The result is the same for every view function and every
  route, so no handler runs; the cache files are untouched.
\<close>
theorem rejected_request_is_throttled:
  assumes "\<not> fst (is_allowed (limiter w) (now e) (client_of req))"
  shows "require_rate_limit cfg e req f w =
           (Inr (throttled cfg),
            w\<lparr>limiter := snd (is_allowed (limiter w) (now e) (client_of req)),
              logged := logged w @ [RateLimitExceeded (client_of req)]\<rparr>) \<and>
         route cfg e req ep w = require_rate_limit cfg e req f w \<and>
         files (snd (route cfg e req ep w)) = files w \<and>
         status_code (throttled cfg) = 429 \<and>
         body (throttled cfg) = JsonBody (JObj
           [(''error'', JStr ''Rate limit exceeded''),
            (''message'', JStr (''Maximum '' @ str_int (RATE_LIMIT_REQUESTS cfg) @
                                '' requests per '' @ str_int (RATE_LIMIT_WINDOW cfg) @
                                '' minutes''))]) \<and>
         max_requests (app_rate_limiter cfg) = RATE_LIMIT_REQUESTS cfg \<and>
         window_seconds (app_rate_limiter cfg) = RATE_LIMIT_WINDOW cfg * 60"
  using assms
  by (simp add: require_rate_limit_rejected route_def throttled_status throttled_body
      app_rate_limiter_def RateLimiter_init_def)

theorem rejected_request_is_throttled_witness:
  "\<not> fst (is_allowed (limiter ex_busy_world) (now ex_env) (client_of ex_request)) \<and>
   fst (route ex_config ex_env ex_request Decades ex_busy_world) = Inr (throttled ex_config) \<and>
   files (snd (route ex_config ex_env ex_request Decades ex_busy_world)) = Map.empty \<and>
   body (throttled ex_config) = JsonBody (JObj
           [(''error'', JStr ''Rate limit exceeded''),
            (''message'', JStr ''Maximum 1 requests per 15 minutes'')])"
proof -
  have a: "\<not> fst (is_allowed (limiter ex_busy_world) (now ex_env) (client_of ex_request))"
    by (simp add: is_allowed_fst ex_busy_world_def ex_world_def ex_env_def ex_request_def
        client_of_def app_rate_limiter_def RateLimiter_init_def ex_config_def recent_def
        client_timestamps_def)
  have f: "files ex_busy_world = Map.empty"
    by (simp add: ex_busy_world_def ex_world_def)
  have s: "str_int (RATE_LIMIT_REQUESTS ex_config) = ''1''"
    "str_int (RATE_LIMIT_WINDOW ex_config) = ''15''"
    by (simp_all add: ex_config_def str_int_def str_nat.simps digit_char_def)
  from rejected_request_is_throttled [OF a, of ex_config "get_decades (app_cache ex_config) ex_env" Decades]
  show ?thesis
    using a by (simp add: f s)
qed






section \<open>Properties of the cached handlers\<close>

lemma cached_or_absent:
  "files w (cache_path cache key) = None \<Longrightarrow> cached_or cache e key compute w = compute w"
  by (simp add: cached_or_def get_absent)

lemma cached_or_fresh:
  assumes "files w (cache_path cache key) = Some (File \<lparr>st_mtime = t0, content = Document v\<rparr>)"
    and "now e - t0 \<le> real_of_int (ttl_seconds cache)"
    and "\<not> stat_fails (io e)" "\<not> read_fails (io e)"
  shows "cached_or cache e key compute w = (if truthy v then (Inr (jsonify v), w) else compute w)"
  using get_fresh [OF assms(1), of "io e" "now e" v] assms(2-4)
  by (simp add: cached_or_def)

lemma view_valid:
  assumes "\<not> fails_validation e req ep" "cache_key_of e req ep = Some key"
  shows "view cache e req ep w = cached_or cache e key (recompute cache e req ep key) w"
proof (cases ep)
  case TopPerformers
  with assms show ?thesis
    by (auto simp: get_top_performers_def Let_def split: option.splits)
qed (use assms in \<open>auto simp: get_decades_def get_markets_def get_decade_data_def
       get_market_data_def get_stock_data_def get_statistics_def Let_def\<close>)

text \<open>
  Claim C9. For every cached route and a request that passes validation: a cached payload
  that is within its TTL is returned only if it is true as a Python condition; for a false
  one, such as an empty dictionary, the handler does what it does when no entry exists: it
  runs its \<^verbatim>\<open>try\<close> statement.
\<close>
theorem falsy_cached_payload_is_a_miss:
  assumes "\<not> fails_validation e req ep" and "cache_key_of e req ep = Some key"
  shows "(files w (cache_path cache key) = None \<longrightarrow>
            view cache e req ep w = recompute cache e req ep key w) \<and>
         (\<forall>t0 v. files w (cache_path cache key)
                   = Some (File \<lparr>st_mtime = t0, content = Document v\<rparr>) \<and>
                 now e - t0 \<le> real_of_int (ttl_seconds cache) \<and>
                 \<not> stat_fails (io e) \<and> \<not> read_fails (io e) \<longrightarrow>
            view cache e req ep w =
              (if truthy v then (Inr (jsonify v), w) else recompute cache e req ep key w))"
  using assms by (simp add: view_valid cached_or_absent cached_or_fresh)

theorem falsy_cached_payload_is_a_miss_witness:
  "\<not> fails_validation ex_env ex_request Decades \<and>
   cache_key_of ex_env ex_request Decades = Some ''decades_list'' \<and>
   files ex_falsy_world (cache_path ex_cache ''decades_list'')
     = Some (File \<lparr>st_mtime = 0, content = Document (JObj [])\<rparr>) \<and>
   now ex_env - 0 \<le> real_of_int (ttl_seconds ex_cache) \<and>
   \<not> stat_fails (io ex_env) \<and> \<not> read_fails (io ex_env) \<and>
   \<not> truthy (JObj []) \<and>
   view ex_cache ex_env ex_request Decades ex_falsy_world
     = get_decades_try ex_cache ex_env ''decades_list'' ex_falsy_world \<and>
   fst (view ex_cache ex_env ex_request Decades ex_falsy_world)
     = Inr (jsonify (JObj [(''decades'', JList [JStr ''1920s'']), (''count'', JInt 1),
                           (''timestamp'', JStr ''2024-01-01T00:00:05'')]))"
proof -
  have a: "\<not> fails_validation ex_env ex_request Decades"
    "cache_key_of ex_env ex_request Decades = Some ''decades_list''"
    by simp_all
  have b: "files ex_falsy_world (cache_path ex_cache ''decades_list'')
     = Some (File \<lparr>st_mtime = 0, content = Document (JObj [])\<rparr>)"
    by (simp add: ex_falsy_world_def ex_paths)
  have c: "now ex_env - 0 \<le> real_of_int (ttl_seconds ex_cache)"
    "\<not> stat_fails (io ex_env)" "\<not> read_fails (io ex_env)"
    by (simp_all add: ex_env_def ex_cache_def DataCache_init_def no_faults_def)
  from falsy_cached_payload_is_a_miss [OF a, of ex_falsy_world ex_cache] b c
  have v: "view ex_cache ex_env ex_request Decades ex_falsy_world
     = get_decades_try ex_cache ex_env ''decades_list'' ex_falsy_world"
    by simp
  have t: "fst (get_decades_try ex_cache ex_env ''decades_list'' ex_falsy_world)
     = Inr (jsonify (JObj [(''decades'', JList [JStr ''1920s'']), (''count'', JInt 1),
                           (''timestamp'', JStr ''2024-01-01T00:00:05'')]))"
    by (simp add: get_decades_try_def catch_all_def store_and_return_def DataCache_set_def
        set_try_def dump_py ex_paths ex_falsy_world_def ex_env_def no_faults_def del: py.simps)
  show ?thesis
    using a b c v t by simp
qed

lemma digit_char_no_nul: "d < 10 \<Longrightarrow> digit_char d \<noteq> CHR 0x00"
proof -
  assume "d < 10"
  then have "digit_char d \<in> set ''0123456789''"
    unfolding digit_char_def by (intro nth_mem) simp
  then show ?thesis by auto
qed

lemma str_nat_no_nul: "CHR 0x00 \<notin> set (str_nat n)"
proof (induction n rule: str_nat.induct)
  case (1 n)
  show ?case
  proof (cases "n < 10")
    case True
    then show ?thesis
      using digit_char_no_nul [of n] by (subst str_nat.simps) auto
  next
    case False
    then show ?thesis
      using "1" digit_char_no_nul [of "n mod 10"] by (subst str_nat.simps) auto
  qed
qed

lemma str_int_no_nul: "CHR 0x00 \<notin> set (str_int i)"
  by (simp add: str_int_def str_nat_no_nul)

lemma or_all_decade_no_nul: "\<not> invalid_decade p \<Longrightarrow> CHR 0x00 \<notin> set (or_all p)"
  by (auto simp: invalid_decade_def or_all_def validate_decade_def split: option.splits)

lemma or_all_market_no_nul: "\<not> invalid_market p \<Longrightarrow> CHR 0x00 \<notin> set (or_all p)"
  by (auto simp: invalid_market_def or_all_def validate_market_def split: option.splits)

text \<open>
  Claim C10. When the limit parameter of a top performers request converts to the integer
  \<open>L\<close> (10 when it is absent), the handler works with \<open>min L 50\<close>, which is \<open>L\<close> itself
  for every \<open>L \<le> 50\<close>, zero and negative values included: this number ends the
  cache key, is the last parameter of the query and is the limit in the filters of the
  payload.
\<close>
theorem top_performers_limit:
  assumes "(args req ''limit'' = None \<and> L = 10) \<or>
           (\<exists>s. args req ''limit'' = Some s \<and> int_of_str e s = Some L)"
    and "\<not> invalid_decade (args req ''decade'')" and "\<not> invalid_market (args req ''market'')"
    and "key = ''top_performers_'' @ or_all (args req ''decade'') @ ''_'' @
               or_all (args req ''market'') @ ''_'' @ str_int (min L 50)"
    and "payload = JObj [(''top_performers'', JList (map JObj stocks)),
                         (''filters'', JObj [(''decade'', opt_json (args req ''decade'')),
                                             (''market'', opt_json (args req ''market'')),
                                             (''limit'', JInt (min L 50))]),
                         (''count'', JInt (int (length stocks))),
                         (''timestamp'', JStr (isoformat e))]"
  shows "top_limit e req = Some (min L 50) \<and>
         (L \<le> 50 \<longrightarrow> top_limit e req = Some L) \<and>
         get_top_performers cache e req w =
           cached_or cache e key
             (get_top_performers_try cache e (args req ''decade'') (args req ''market'')
                (min L 50) key) w \<and>
         (files w (cache_path cache key) = None \<and>
          execute e (''SELECT * FROM stock_data WHERE 1=1'' @
                     opt_clause (args req ''decade'') '' AND decade = ?'' @
                     opt_clause (args req ''market'') '' AND market = ?'' @
                     '' ORDER BY total_return DESC LIMIT ?'')
                    (opt_param (args req ''decade'') @ opt_param (args req ''market'') @
                     [SqlInt (min L 50)]) = Inr stocks \<and>
          \<not> open_write_fails (io e) \<and> \<not> dump_fails (io e) \<longrightarrow>
          get_top_performers cache e req w =
            (Inr (jsonify payload),
             w\<lparr>files := (files w)(cache_path cache key \<mapsto>
                                    File \<lparr>st_mtime = now e, content = Document payload\<rparr>)\<rparr>))"
proof -
  have lim: "top_limit e req = Some (min L 50)"
    using assms(1) by (auto simp: top_limit_def)
  have nul: "CHR 0x00 \<notin> set key"
    using assms(2,3) by (simp add: assms(4) or_all_decade_no_nul or_all_market_no_nul str_int_no_nul)
  have h: "get_top_performers cache e req w =
           cached_or cache e key
             (get_top_performers_try cache e (args req ''decade'') (args req ''market'')
                (min L 50) key) w"
    using assms(2,3) by (simp add: get_top_performers_def Let_def lim assms(4))
  have m: "get_top_performers cache e req w =
            (Inr (jsonify payload),
             w\<lparr>files := (files w)(cache_path cache key \<mapsto>
                                    File \<lparr>st_mtime = now e, content = Document payload\<rparr>)\<rparr>)"
    if "files w (cache_path cache key) = None"
      and "execute e (''SELECT * FROM stock_data WHERE 1=1'' @
                     opt_clause (args req ''decade'') '' AND decade = ?'' @
                     opt_clause (args req ''market'') '' AND market = ?'' @
                     '' ORDER BY total_return DESC LIMIT ?'')
                    (opt_param (args req ''decade'') @ opt_param (args req ''market'') @
                     [SqlInt (min L 50)]) = Inr stocks"
      and "\<not> open_write_fails (io e)" "\<not> dump_fails (io e)"
    using that
    by (simp add: h cached_or_absent get_top_performers_try_def catch_all_def Let_def
        store_and_return_def DataCache_set_def set_try_def dump_py nul assms(5) del: py.simps)
  show ?thesis
    using lim h m by simp
qed

theorem top_performers_limit_witness:
  "args ex_limit_request ''limit'' = Some ''-5'' \<and> int_of_str ex_env ''-5'' = Some (- 5) \<and>
   \<not> invalid_decade (args ex_limit_request ''decade'') \<and>
   \<not> invalid_market (args ex_limit_request ''market'') \<and>
   files ex_world (cache_path ex_cache ''top_performers_all_all_-5'') = None \<and>
   \<not> open_write_fails (io ex_env) \<and> \<not> dump_fails (io ex_env) \<and>
   top_limit ex_env ex_limit_request = Some (- 5) \<and>
   fst (get_top_performers ex_cache ex_env ex_limit_request ex_world) =
     Inr (jsonify (JObj [(''top_performers'', JList [JObj [(''decade'', JStr ''1920s'')]]),
                         (''filters'', JObj [(''decade'', JNull), (''market'', JNull),
                                             (''limit'', JInt (- 5))]),
                         (''count'', JInt 1),
                         (''timestamp'', JStr ''2024-01-01T00:00:05'')])) \<and>
   (\<exists>f. files (snd (get_top_performers ex_cache ex_env ex_limit_request ex_world))
          ''cache/top_performers_all_all_-5.json'' = Some f)"
proof -
  have a: "args ex_limit_request ''limit'' = Some ''-5''" "int_of_str ex_env ''-5'' = Some (- 5)"
    "args ex_limit_request ''decade'' = None" "args ex_limit_request ''market'' = None"
    by (simp_all add: ex_limit_request_def ex_request_def ex_env_def)
  have b: "\<not> invalid_decade (args ex_limit_request ''decade'')"
    "\<not> invalid_market (args ex_limit_request ''market'')"
    by (simp_all add: a invalid_decade_def invalid_market_def)
  have s: "str_int (- 5) = ''-5''"
    by (simp add: str_int_def str_nat.simps digit_char_def)
  have k: "''top_performers_'' @ or_all (args ex_limit_request ''decade'') @ ''_'' @
               or_all (args ex_limit_request ''market'') @ ''_'' @ str_int (min (- 5) 50)
           = ''top_performers_all_all_-5''"
    by (simp add: a or_all_def s)
  have p: "cache_path ex_cache ''top_performers_all_all_-5'' = ''cache/top_performers_all_all_-5.json''"
    by (simp add: cache_path_def path_join_def path_root_def path_parts_def ex_cache_def
        DataCache_init_def)
  have c: "files ex_world (cache_path ex_cache ''top_performers_all_all_-5'') = None"
    by (simp add: ex_world_def)
  have d: "\<not> open_write_fails (io ex_env)" "\<not> dump_fails (io ex_env)"
    "isoformat ex_env = ''2024-01-01T00:00:05''"
    "\<And>q ps. execute ex_env q ps = Inr [[(''decade'', JStr ''1920s'')]]"
    by (simp_all add: ex_env_def no_faults_def)
  have l: "(args ex_limit_request ''limit'' = None \<and> (- 5 :: int) = 10) \<or>
           (\<exists>s. args ex_limit_request ''limit'' = Some s \<and> int_of_str ex_env s = Some (- 5))"
    using a by simp
  note th = top_performers_limit [where L = "- 5" and stocks = "[[(''decade'', JStr ''1920s'')]]"
      and cache = ex_cache and w = ex_world, OF l b k [symmetric] refl]
  have 1: "top_limit ex_env ex_limit_request = Some (- 5)"
    using th [THEN conjunct1] by simp
  have 2: "get_top_performers ex_cache ex_env ex_limit_request ex_world =
     (Inr (jsonify (JObj [(''top_performers'', JList [JObj [(''decade'', JStr ''1920s'')]]),
                         (''filters'', JObj [(''decade'', JNull), (''market'', JNull),
                                             (''limit'', JInt (- 5))]),
                         (''count'', JInt 1),
                         (''timestamp'', JStr ''2024-01-01T00:00:05'')])),
      ex_world\<lparr>files := (files ex_world)(cache_path ex_cache ''top_performers_all_all_-5'' \<mapsto>
           File \<lparr>st_mtime = now ex_env,
            content = Document (JObj [(''top_performers'', JList [JObj [(''decade'', JStr ''1920s'')]]),
                         (''filters'', JObj [(''decade'', JNull), (''market'', JNull),
                                             (''limit'', JInt (- 5))]),
                         (''count'', JInt 1),
                         (''timestamp'', JStr ''2024-01-01T00:00:05'')])\<rparr>)\<rparr>)"
    using th [THEN conjunct2, THEN conjunct2, THEN conjunct2] a c d
    by (simp add: opt_json_def)
  from 1 2 have "top_limit ex_env ex_limit_request = Some (- 5) \<and>
     fst (get_top_performers ex_cache ex_env ex_limit_request ex_world) =
     Inr (jsonify (JObj [(''top_performers'', JList [JObj [(''decade'', JStr ''1920s'')]]),
                         (''filters'', JObj [(''decade'', JNull), (''market'', JNull),
                                             (''limit'', JInt (- 5))]),
                         (''count'', JInt 1),
                         (''timestamp'', JStr ''2024-01-01T00:00:05'')])) \<and>
     (\<exists>f. files (snd (get_top_performers ex_cache ex_env ex_limit_request ex_world))
          ''cache/top_performers_all_all_-5.json'' = Some f)"
    by (simp add: p)
  then show ?thesis
    using a(1,2) b c d(1,2) by simp
qed

end
